theory Spec2Isabelle
  imports Complex_Main "HOL-Library.Char_ord" "HOL-Library.List_Lexorder"
begin

section \<open>Numbers as the scripts see them\<close>

text \<open>
  Every numeric cell of a pandas table and every element of a numpy array in the two
  scripts is a float64. The model keeps the three special values that change the
  outcome of an operation and drops rounding: a finite value is an exact real, and the
  operations follow IEEE 754 on the special values (\<open>inf - inf\<close>, \<open>0 * inf\<close> and
  \<open>0 / 0\<close> are NaN; \<open>x / 0\<close> is an infinity, with a RuntimeWarning and no exception in
  numpy). NaN is also pandas' marker of a missing cell. Not modelled: rounding, overflow
  to infinity, and the sign of zero (a zero divisor is taken as \<open>+0.0\<close>, which is what a
  sum of squares gives).
\<close>

datatype npfloat = Fin real | PInf | NInf | NaN

fun np_neg :: "npfloat \<Rightarrow> npfloat" where
  "np_neg (Fin x) = Fin (- x)"
| "np_neg PInf = NInf"
| "np_neg NInf = PInf"
| "np_neg NaN = NaN"

fun np_add :: "npfloat \<Rightarrow> npfloat \<Rightarrow> npfloat" where
  "np_add (Fin x) (Fin y) = Fin (x + y)"
| "np_add NaN _ = NaN"
| "np_add _ NaN = NaN"
| "np_add PInf NInf = NaN"
| "np_add NInf PInf = NaN"
| "np_add PInf _ = PInf"
| "np_add _ PInf = PInf"
| "np_add NInf _ = NInf"
| "np_add _ NInf = NInf"

definition np_sub :: "npfloat \<Rightarrow> npfloat \<Rightarrow> npfloat" where
  "np_sub a b = np_add a (np_neg b)"

fun np_mul :: "npfloat \<Rightarrow> npfloat \<Rightarrow> npfloat" where
  "np_mul (Fin x) (Fin y) = Fin (x * y)"
| "np_mul NaN _ = NaN"
| "np_mul _ NaN = NaN"
| "np_mul PInf (Fin y) = (if y = 0 then NaN else if 0 < y then PInf else NInf)"
| "np_mul NInf (Fin y) = (if y = 0 then NaN else if 0 < y then NInf else PInf)"
| "np_mul (Fin x) PInf = (if x = 0 then NaN else if 0 < x then PInf else NInf)"
| "np_mul (Fin x) NInf = (if x = 0 then NaN else if 0 < x then NInf else PInf)"
| "np_mul PInf PInf = PInf"
| "np_mul PInf NInf = NInf"
| "np_mul NInf PInf = NInf"
| "np_mul NInf NInf = PInf"

fun np_div :: "npfloat \<Rightarrow> npfloat \<Rightarrow> npfloat" where
  "np_div (Fin x) (Fin y) =
     (if y \<noteq> 0 then Fin (x / y)
      else if x = 0 then NaN else if 0 < x then PInf else NInf)"
| "np_div NaN _ = NaN"
| "np_div _ NaN = NaN"
| "np_div (Fin x) _ = Fin 0"
| "np_div PInf (Fin y) = (if 0 \<le> y then PInf else NInf)"
| "np_div NInf (Fin y) = (if 0 \<le> y then NInf else PInf)"
| "np_div _ _ = NaN"

fun is_fin :: "npfloat \<Rightarrow> bool" where
  "is_fin (Fin x) = True"
| "is_fin _ = False"

section \<open>Python exceptions\<close>

text \<open>
  The exceptions the modelled code can raise or catch. \<open>FileNotFoundError\<close> and
  \<open>EmptyDataError\<close> are the two classes the loaders name; \<open>ParserError\<close> stands for
  any other exception of \<open>pd.read_csv\<close>. A function that can raise returns
  \<open>pyerror + 'a\<close>, with \<open>Inl\<close> the exception.
\<close>

datatype pyerror =
  FileNotFoundError | EmptyDataError | ParserError
| ValueError | IndexError | KeyError | TypeError

definition bind_err :: "pyerror + 'a \<Rightarrow> ('a \<Rightarrow> pyerror + 'b) \<Rightarrow> pyerror + 'b" where
  "bind_err m f = (case m of Inl e \<Rightarrow> Inl e | Inr v \<Rightarrow> f v)"

section \<open>One-dimensional numpy arrays\<close>

text \<open>
  A spectrum is a one-dimensional array, a list of \<^typ>\<open>npfloat\<close>. An elementwise
  operation on two arrays broadcasts an array of length one and raises \<open>ValueError\<close> on
  any other length mismatch. \<open>np.sum\<close> of the empty array is \<open>0.0\<close> and \<open>np.mean\<close> of
  it is NaN (\<open>0.0 / 0\<close>).
\<close>

definition np_elementwise ::
  "(npfloat \<Rightarrow> npfloat \<Rightarrow> npfloat) \<Rightarrow> npfloat list \<Rightarrow> npfloat list \<Rightarrow> pyerror + npfloat list" where
  "np_elementwise f xs ys =
     (if length xs = length ys then Inr (map2 f xs ys)
      else if length xs = 1 then Inr (map (f (hd xs)) ys)
      else if length ys = 1 then Inr (map (\<lambda>x. f x (hd ys)) xs)
      else Inl ValueError)"

definition np_scale :: "npfloat \<Rightarrow> npfloat list \<Rightarrow> npfloat list" where
  "np_scale c xs = map (np_mul c) xs"

definition np_sum :: "npfloat list \<Rightarrow> npfloat" where
  "np_sum xs = foldl np_add (Fin 0) xs"


definition np_square :: "npfloat list \<Rightarrow> npfloat list" where
  "np_square xs = map (\<lambda>x. np_mul x x) xs"

section \<open>Goodness of fit\<close>

text \<open>
  \<open>calculate_r_squared\<close> is the same three lines in both scripts:
  \<^verbatim>\<open>
    SS_res = np.sum((sample_spectrum - fitted_spectrum) ** 2)
    SS_tot = np.sum((sample_spectrum - np.mean(sample_spectrum)) ** 2)
    return 1 - (SS_res / SS_tot)
  \<close>
\<close>

definition ss_res :: "npfloat list \<Rightarrow> npfloat list \<Rightarrow> pyerror + npfloat" where
  "ss_res sample_spectrum fitted_spectrum =
     bind_err (np_elementwise np_sub sample_spectrum fitted_spectrum)
       (\<lambda>d. Inr (np_sum (np_square d)))"



section \<open>Tables\<close>

text \<open>
  A pandas \<open>DataFrame\<close> as the two scripts use it: a number of rows and a list of
  labelled columns. A column label is a string (a CSV header, \<open>'Row/Col'\<close>) or an
  integer (a wavelength, or the position \<open>pd.read_csv(header=None)\<close> assigns). A column
  is numeric (dtype \<open>int64\<close>/\<open>float64\<close>: what \<open>select_dtypes(include='number')\<close> keeps) or
  non-numeric (dtype \<open>object\<close>; a missing cell is \<open>None\<close>). The record is polymorphic in
  the column so that the result of \<open>select_dtypes\<close> has a type of its own: a \<open>numframe\<close>
  holds numeric columns only, an \<open>objframe\<close> non-numeric columns only.

  Scope of the table model: the row index is pandas' default \<open>RangeIndex\<close> (what
  \<open>pd.read_csv\<close> gives and none of the modelled functions changes), so aligning the
  rows of two tables pads the shorter with missing cells; column labels are distinct
  (\<open>pd.read_csv\<close> renames repeated headers, \<open>load_data_new\<close> assigns distinct labels);
  every column has \<open>nrows\<close> cells. \<open>wf_frame\<close> states the last two.
\<close>

datatype label = is_LStr: LStr (un_LStr: string) | is_LInt: LInt (un_LInt: int)

datatype column = NumCol "npfloat list" | ObjCol "string option list"

record 'c frame =
  nrows :: nat
  cols :: "(label \<times> 'c) list"

type_synonym dataframe = "column frame"
type_synonym numframe = "npfloat list frame"
type_synonym objframe = "string option list frame"

definition columns :: "'c frame \<Rightarrow> label list" where
  "columns df = map fst (cols df)"

fun col_length :: "column \<Rightarrow> nat" where
  "col_length (NumCol xs) = length xs"
| "col_length (ObjCol ys) = length ys"

definition wf_frame :: "dataframe \<Rightarrow> bool" where
  "wf_frame df \<longleftrightarrow>
     distinct (columns df) \<and> list_all (\<lambda>c. col_length (snd c) = nrows df) (cols df)"

text \<open>\<open>pd.DataFrame()\<close>: no rows, no columns.\<close>

definition empty_frame :: dataframe where
  "empty_frame = \<lparr>nrows = 0, cols = []\<rparr>"

subsection \<open>\<open>select_dtypes\<close> and \<open>separate_columns\<close>\<close>

fun num_part :: "(label \<times> column) list \<Rightarrow> (label \<times> npfloat list) list" where
  "num_part [] = []"
| "num_part ((l, NumCol xs) # cs) = (l, xs) # num_part cs"
| "num_part ((l, ObjCol ys) # cs) = num_part cs"

fun obj_part :: "(label \<times> column) list \<Rightarrow> (label \<times> string option list) list" where
  "obj_part [] = []"
| "obj_part ((l, NumCol xs) # cs) = obj_part cs"
| "obj_part ((l, ObjCol ys) # cs) = (l, ys) # obj_part cs"

definition select_dtypes_include_number :: "dataframe \<Rightarrow> numframe" where
  "select_dtypes_include_number df = \<lparr>nrows = nrows df, cols = num_part (cols df)\<rparr>"

definition select_dtypes_exclude_number :: "dataframe \<Rightarrow> objframe" where
  "select_dtypes_exclude_number df = \<lparr>nrows = nrows df, cols = obj_part (cols df)\<rparr>"

text \<open>
  \<open>separate_columns\<close> is the same in both scripts: the numeric columns, the non-numeric
  columns and \<open>df.columns.tolist()\<close>.
\<close>

definition separate_columns :: "dataframe \<Rightarrow> numframe \<times> objframe \<times> label list" where
  "separate_columns df =
     (select_dtypes_include_number df, select_dtypes_exclude_number df, columns df)"

subsection \<open>Alignment\<close>

text \<open>
  Arithmetic on two tables and \<open>pd.concat(axis=1)\<close> first align their operands. Rows:
  the union of two \<open>RangeIndex\<close>es is the longer one, and the cells a table lacks are
  missing. Columns (pandas' outer join of the two label indexes): the labels themselves
  when both tables have the same labels in the same order or one has none; otherwise
  the union, sorted when the labels are comparable (all integers or all strings), and
  in order of first appearance when they are not.
\<close>

definition pad_rows :: "nat \<Rightarrow> 'a \<Rightarrow> 'a list \<Rightarrow> 'a list" where
  "pad_rows n d xs = xs @ replicate (n - length xs) d"

definition sort_labels :: "label list \<Rightarrow> label list" where
  "sort_labels u =
     (if list_all is_LInt u then map LInt (sort (map un_LInt u))
      else if list_all is_LStr u then map LStr (sort (map un_LStr u))
      else u)"

definition align_labels :: "label list \<Rightarrow> label list \<Rightarrow> label list" where
  "align_labels a b =
     (if a = b \<or> b = [] then a
      else if a = [] then b
      else sort_labels (a @ filter (\<lambda>l. l \<notin> set a) b))"

definition col_or_missing :: "numframe \<Rightarrow> label \<Rightarrow> npfloat list" where
  "col_or_missing df l = (case map_of (cols df) l of Some xs \<Rightarrow> xs | None \<Rightarrow> [])"

text \<open>
  A binary operation on two numeric tables, cell by cell after alignment. \<open>frame_sub\<close> is
  the operator \<open>-\<close> of the newer script; \<open>subtract_fill0\<close> is
  \<open>DataFrame.subtract(other, fill_value=0)\<close> of the older one, which reads a cell missing
  on one side only as \<open>0\<close> and leaves a cell missing on both sides missing.
\<close>

definition aligned_op ::
  "(npfloat \<Rightarrow> npfloat \<Rightarrow> npfloat) \<Rightarrow> numframe \<Rightarrow> numframe \<Rightarrow> numframe" where
  "aligned_op f a b =
     (let n = max (nrows a) (nrows b) in
      \<lparr>nrows = n,
       cols = map (\<lambda>l. (l, map2 f (pad_rows n NaN (col_or_missing a l))
                                   (pad_rows n NaN (col_or_missing b l))))
                  (align_labels (columns a) (columns b))\<rparr>)"

definition frame_sub :: "numframe \<Rightarrow> numframe \<Rightarrow> numframe" where
  "frame_sub = aligned_op np_sub"

definition fill0 :: "npfloat \<Rightarrow> npfloat" where
  "fill0 v = (if v = NaN then Fin 0 else v)"

definition sub_fill0 :: "npfloat \<Rightarrow> npfloat \<Rightarrow> npfloat" where
  "sub_fill0 v w = (if v = NaN \<and> w = NaN then NaN else np_sub (fill0 v) (fill0 w))"

definition subtract_fill0 :: "numframe \<Rightarrow> numframe \<Rightarrow> numframe" where
  "subtract_fill0 = aligned_op sub_fill0"

subsection \<open>Rows\<close>

text \<open>
  A Python index into \<open>n\<close> positions: a negative index counts from the end, anything
  outside raises \<open>IndexError\<close>. \<open>iloc_row\<close> is \<open>df.iloc[i]\<close> on a numeric table: the row
  as a series indexed by the column labels.
\<close>

definition py_index :: "nat \<Rightarrow> int \<Rightarrow> pyerror + nat" where
  "py_index n i =
     (if 0 \<le> i \<and> i < int n then Inr (nat i)
      else if - int n \<le> i \<and> i < 0 then Inr (nat (int n + i))
      else Inl IndexError)"

definition row_at :: "numframe \<Rightarrow> nat \<Rightarrow> (label \<times> npfloat) list" where
  "row_at df k = map (\<lambda>c. (fst c, snd c ! k)) (cols df)"

definition iloc_row :: "numframe \<Rightarrow> int \<Rightarrow> pyerror + (label \<times> npfloat) list" where
  "iloc_row df i = bind_err (py_index (nrows df) i) (\<lambda>k. Inr (row_at df k))"

text \<open>
  \<open>df.subtract(series, axis=1)\<close> matches the index of the series with the columns of the
  table and subtracts the matching entry from every cell of a column. The only series
  the scripts pass is a row of the same table, whose index is the table's columns, so
  the alignment is the identity and the columns keep their order.
\<close>

definition subtract_series_axis1 :: "numframe \<Rightarrow> (label \<times> npfloat) list \<Rightarrow> numframe" where
  "subtract_series_axis1 df s =
     df\<lparr>cols := map (\<lambda>c. (fst c,
             map (\<lambda>v. np_sub v (case map_of s (fst c) of Some w \<Rightarrow> w | None \<Rightarrow> NaN)) (snd c)))
           (cols df)\<rparr>"

subsection \<open>Putting the columns back\<close>

text \<open>
  \<open>pd.concat([non_numeric_data, numeric_data], axis=1)\<close>: the non-numeric columns, then
  the numeric columns, on the union of the rows. \<open>reindex(columns=...)\<close> picks the
  columns by label in the order asked for; a label the table lacks gives a column of
  missing cells.
\<close>

definition concat_axis1 :: "objframe \<Rightarrow> numframe \<Rightarrow> dataframe" where
  "concat_axis1 non_numeric_data numeric_data =
     (let n = max (nrows non_numeric_data) (nrows numeric_data) in
      \<lparr>nrows = n,
       cols = map (\<lambda>c. (fst c, ObjCol (pad_rows n None (snd c)))) (cols non_numeric_data)
            @ map (\<lambda>c. (fst c, NumCol (pad_rows n NaN (snd c)))) (cols numeric_data)\<rparr>)"

definition reindex_columns :: "label list \<Rightarrow> dataframe \<Rightarrow> dataframe" where
  "reindex_columns ls df =
     df\<lparr>cols := map (\<lambda>l. (l, case map_of (cols df) l of
                                 Some c \<Rightarrow> c
                               | None \<Rightarrow> NumCol (replicate (nrows df) NaN))) ls\<rparr>"

section \<open>Background correction\<close>

subsection \<open>\<open>Curve Fitting & Machine Learning.py\<close>\<close>

text \<open>
  \<^verbatim>\<open>
    def recombine_data(numeric_data, non_numeric_data, original_columns):
        combined_df = pd.concat([non_numeric_data, numeric_data], axis=1)
        combined_df = combined_df.reindex(columns=original_columns)
        return combined_df

    def separate_subtract_and_recombine(raw_df, plate_data, blank_index=0):
        numeric_cols_raw, non_numeric_cols_raw, original_columns_raw = separate_columns(raw_df)
        numeric_cols_plate, non_numeric_cols_plate, _ = separate_columns(plate_data)
        plate_corrected_data = numeric_cols_raw - numeric_cols_plate
        blank_row = plate_corrected_data.iloc[blank_index]
        blank_corrected_data = plate_corrected_data.subtract(blank_row, axis=1)
        final_plate = recombine_data(blank_corrected_data, non_numeric_cols_raw, original_columns_raw)
        return final_plate
  \<close>
\<close>

definition recombine_data :: "numframe \<Rightarrow> objframe \<Rightarrow> label list \<Rightarrow> dataframe" where
  "recombine_data numeric_data non_numeric_data original_columns =
     reindex_columns original_columns (concat_axis1 non_numeric_data numeric_data)"

definition separate_subtract_and_recombine :: "dataframe \<Rightarrow> dataframe \<Rightarrow> int \<Rightarrow> pyerror + dataframe" where
  "separate_subtract_and_recombine raw_df plate_data blank_index =
     (case separate_columns raw_df of
        (numeric_cols_raw, non_numeric_cols_raw, original_columns_raw) \<Rightarrow>
      case separate_columns plate_data of
        (numeric_cols_plate, non_numeric_cols_plate, unused) \<Rightarrow>
      let plate_corrected_data = frame_sub numeric_cols_raw numeric_cols_plate in
      bind_err (iloc_row plate_corrected_data blank_index) (\<lambda>blank_row.
        let blank_corrected_data = subtract_series_axis1 plate_corrected_data blank_row in
        Inr (recombine_data blank_corrected_data non_numeric_cols_raw original_columns_raw)))"

subsection \<open>\<open>Background Correction for PRD Reader.py\<close>\<close>

text \<open>
  The older script's functions carry the suffix \<open>_prd\<close> where the newer script has a
  function of the same name.
  \<^verbatim>\<open>
    def subtract_background(numeric_raw, numeric_plate):
        return numeric_raw.subtract(numeric_plate, fill_value=0)

    def subtract_blank_row(df):
        blank_row = df.iloc[[0]].values[0]
        return df.apply(lambda row: row - blank_row, axis=1)

    def recombine_data(numeric_data, non_numeric_data, original_columns):
        combined_df = pd.concat([non_numeric_data, numeric_data], axis=1)
        # combined_df = combined_df.reindex(columns=original_columns)
        return combined_df

    def separate_subtract_and_recombine(raw_df, plate_data):
        numeric_cols_raw, non_numeric_cols_raw, original_columns_raw = separate_columns(raw_df)
        numeric_cols_plate, non_numeric_cols_plate, _ = separate_columns(plate_data)
        plate_background_removed = subtract_background(numeric_cols_raw, numeric_cols_plate)
        blank_removed = subtract_blank_row(plate_background_removed)
        final_plate = recombine_data(blank_removed, non_numeric_cols_raw, original_columns_raw)
        return final_plate
  \<close>
  \<open>df.iloc[[0]]\<close> raises \<open>IndexError\<close> on a table with no rows; \<open>blank_row\<close> is the first
  row as an array, subtracted from every row position by position.
\<close>

definition subtract_background :: "numframe \<Rightarrow> numframe \<Rightarrow> numframe" where
  "subtract_background numeric_raw numeric_plate = subtract_fill0 numeric_raw numeric_plate"

definition subtract_blank_row :: "numframe \<Rightarrow> pyerror + numframe" where
  "subtract_blank_row df =
     (if nrows df = 0 then Inl IndexError
      else Inr (df\<lparr>cols := map (\<lambda>c. (fst c, map (\<lambda>v. np_sub v (snd c ! 0)) (snd c))) (cols df)\<rparr>))"

definition recombine_data_prd :: "numframe \<Rightarrow> objframe \<Rightarrow> label list \<Rightarrow> dataframe" where
  "recombine_data_prd numeric_data non_numeric_data original_columns =
     concat_axis1 non_numeric_data numeric_data"

definition separate_subtract_and_recombine_prd :: "dataframe \<Rightarrow> dataframe \<Rightarrow> pyerror + dataframe" where
  "separate_subtract_and_recombine_prd raw_df plate_data =
     (case separate_columns raw_df of
        (numeric_cols_raw, non_numeric_cols_raw, original_columns_raw) \<Rightarrow>
      case separate_columns plate_data of
        (numeric_cols_plate, non_numeric_cols_plate, unused) \<Rightarrow>
      let plate_background_removed = subtract_background numeric_cols_raw numeric_cols_plate in
      bind_err (subtract_blank_row plate_background_removed) (\<lambda>blank_removed.
        Inr (recombine_data_prd blank_removed non_numeric_cols_raw original_columns_raw)))"

section \<open>Spectral deconvolution\<close>

text \<open>
  Both scripts hand the fit to \<open>scipy.optimize.minimize\<close> with a start point and a list
  of bounds. The optimiser is a library routine, not code of the repository: it is a
  parameter of the model. What the model fixes is what the scripts pass to it and what
  they do with the \<open>OptimizeResult\<close> it returns, of which the fields that matter here
  are the last iterate \<open>x\<close>, the flag \<open>success\<close> and the objective value \<open>fun\<close>. An
  exception raised while the optimiser runs (the objective raises \<open>ValueError\<close> when
  the spectra cannot be broadcast together) leaves through the caller.
\<close>

record optimize_result =
  res_x :: "npfloat \<times> npfloat"
  res_success :: bool
  res_fun :: npfloat

type_synonym objective = "npfloat \<times> npfloat \<Rightarrow> pyerror + npfloat"
type_synonym bounds = "(npfloat option \<times> npfloat option) list"
type_synonym minimizer = "objective \<Rightarrow> npfloat \<times> npfloat \<Rightarrow> bounds \<Rightarrow> pyerror + optimize_result"

text \<open>
  The objective, the same closure in \<open>least_squares_deconvolution\<close> and in the older
  \<open>fit_spectra\<close>:
  \<^verbatim>\<open>
    def residuals(coeffs):
        c_styrene, c_polystyrene = coeffs
        combined_spectrum = c_styrene * styrene_spectrum + c_polystyrene * polystyrene_spectrum
        return np.sum((sample_spectrum - combined_spectrum) ** 2)
  \<close>
\<close>

definition combine_spectra :: "npfloat \<Rightarrow> npfloat \<Rightarrow> npfloat list \<Rightarrow> npfloat list \<Rightarrow> pyerror + npfloat list" where
  "combine_spectra c_styrene c_polystyrene styrene_spectrum polystyrene_spectrum =
     np_elementwise np_add (np_scale c_styrene styrene_spectrum)
                           (np_scale c_polystyrene polystyrene_spectrum)"

definition residuals :: "npfloat list \<Rightarrow> npfloat list \<Rightarrow> npfloat list \<Rightarrow> objective" where
  "residuals sample_spectrum styrene_spectrum polystyrene_spectrum coeffs =
     (case coeffs of (c_styrene, c_polystyrene) \<Rightarrow>
        bind_err (combine_spectra c_styrene c_polystyrene styrene_spectrum polystyrene_spectrum)
          (\<lambda>combined_spectrum. ss_res sample_spectrum combined_spectrum))"

definition initial_guess :: "npfloat \<times> npfloat" where
  "initial_guess = (Fin 0.5, Fin 0.5)"

definition nonneg_bounds :: bounds where
  "nonneg_bounds = [(Some (Fin 0), None), (Some (Fin 0), None)]"

text \<open>
  \<^verbatim>\<open>
    result = minimize(residuals, [0.5, 0.5], bounds=[(0, None), (0, None)])
    return result.x
  \<close>
  in \<open>least_squares_deconvolution\<close> of the newer script and, with the two lists bound to
  names first, in \<open>fit_spectra\<close> of the older one.
\<close>

definition least_squares_deconvolution ::
  "minimizer \<Rightarrow> npfloat list \<Rightarrow> npfloat list \<Rightarrow> npfloat list \<Rightarrow> pyerror + npfloat \<times> npfloat" where
  "least_squares_deconvolution minimize sample_spectrum styrene_spectrum polystyrene_spectrum =
     bind_err (minimize (residuals sample_spectrum styrene_spectrum polystyrene_spectrum)
                 initial_guess nonneg_bounds)
       (\<lambda>result. Inr (res_x result))"

definition fit_spectra_prd ::
  "minimizer \<Rightarrow> npfloat list \<Rightarrow> npfloat list \<Rightarrow> npfloat list \<Rightarrow> pyerror + npfloat \<times> npfloat" where
  "fit_spectra_prd minimize sample_spectrum styrene_spectrum polystyrene_spectrum =
     bind_err (minimize (residuals sample_spectrum styrene_spectrum polystyrene_spectrum)
                 initial_guess nonneg_bounds)
       (\<lambda>result. Inr (res_x result))"

text \<open>
  The newer \<open>fit_spectra\<close> takes the deconvolution method as an argument, catches every
  exception of it, logs and returns \<open>None\<close>. A method may itself return \<open>None\<close>
  (\<open>scipy_curve_fit\<close> does after logging its own failure). The log is the list of
  messages printed so far; a message is modelled by its fixed prefix.
  \<^verbatim>\<open>
    try:
        return deconvolution_method(sample_spectrum, styrene_spectrum, polystyrene_spectrum)
    except Exception as e:
        log_msg(f"Error during spectrum fitting: {e}")
        return None
  \<close>
\<close>

type_synonym deconvolution_method =
  "npfloat list \<Rightarrow> npfloat list \<Rightarrow> npfloat list \<Rightarrow> pyerror + (npfloat \<times> npfloat) option"

definition fit_spectra ::
  "npfloat list \<Rightarrow> npfloat list \<Rightarrow> npfloat list \<Rightarrow> deconvolution_method \<Rightarrow> string list
     \<Rightarrow> (npfloat \<times> npfloat) option \<times> string list" where
  "fit_spectra sample_spectrum styrene_spectrum polystyrene_spectrum deconvolution_method msgs =
     (case deconvolution_method sample_spectrum styrene_spectrum polystyrene_spectrum of
        Inr r \<Rightarrow> (r, msgs)
      | Inl e \<Rightarrow> (None, msgs @ [''Error during spectrum fitting'']))"

text \<open>\<open>least_squares_deconvolution\<close> as a method passed to \<open>fit_spectra\<close>.\<close>

definition least_squares_method :: "minimizer \<Rightarrow> deconvolution_method" where
  "least_squares_method minimize sample_spectrum styrene_spectrum polystyrene_spectrum =
     bind_err (least_squares_deconvolution minimize sample_spectrum styrene_spectrum
                 polystyrene_spectrum)
       (\<lambda>r. Inr (Some r))"

section \<open>Batch processing\<close>

text \<open>
  A cell read by position, \<open>df.iloc[i, j]\<close>: \<open>IndexError\<close> when the row or the column is
  out of range. A missing cell of a non-numeric column reads as NaN.
\<close>

datatype cell = Num npfloat | Str string

fun column_cell :: "column \<Rightarrow> nat \<Rightarrow> cell" where
  "column_cell (NumCol xs) i = Num (xs ! i)"
| "column_cell (ObjCol ys) i = (case ys ! i of None \<Rightarrow> Num NaN | Some s \<Rightarrow> Str s)"

definition iloc_cell :: "dataframe \<Rightarrow> nat \<Rightarrow> nat \<Rightarrow> pyerror + cell" where
  "iloc_cell df i j =
     (if i < nrows df \<and> j < length (cols df) then Inr (column_cell (snd (cols df ! j)) i)
      else Inl IndexError)"

text \<open>
  \<open>volume * stock / 300\<close> on a cell: float arithmetic on a number, \<open>TypeError\<close> on a
  string (Python cannot multiply a string by a float).
\<close>

definition to_concentration :: "cell \<Rightarrow> real \<Rightarrow> pyerror + npfloat" where
  "to_concentration v stock =
     (case v of
        Num a \<Rightarrow> Inr (np_div (np_mul a (Fin stock)) (Fin 300))
      | Str s \<Rightarrow> Inl TypeError)"

text \<open>
  A Python slice \<open>xs[start:stop]\<close> with step one; \<open>stop\<close> may be \<open>None\<close>. Negative
  bounds count from the end and every bound is clamped to the sequence.
\<close>

definition py_slice :: "int \<Rightarrow> int option \<Rightarrow> 'a list \<Rightarrow> 'a list" where
  "py_slice start stop xs =
     (let n = int (length xs);
          clamp = (\<lambda>i. if i < 0 then max 0 (n + i) else min n i);
          s = clamp start;
          e = (case stop of None \<Rightarrow> n | Some j \<Rightarrow> clamp j)
      in take (nat (e - s)) (drop (nat s) xs))"

text \<open>
  \<open>data_df.select_dtypes(include='number').iloc[i, :].values[range_start:range_end]\<close>
  for a row \<open>i\<close> of the loop, which is below \<open>data_df.shape[0]\<close>.
\<close>

definition unknown_spectrum :: "dataframe \<Rightarrow> nat \<Rightarrow> int \<Rightarrow> int option \<Rightarrow> npfloat list" where
  "unknown_spectrum data_df i range_start range_end =
     py_slice range_start range_end
       (map snd (row_at (select_dtypes_include_number data_df) i))"

text \<open>
  The body of the loop of \<open>process_samples\<close> in the newer script, with plotting off (the
  default; plotting reads the values and changes none of the lists):
  \<^verbatim>\<open>
    c_styrene_opt, c_polystyrene_opt = fit_spectra(unknown_spectrum, styrene_spectrum,
                                                   polystyrene_spectrum, deconvolution_method)
    fitted_spectrum = c_styrene_opt * styrene_spectrum + c_polystyrene_opt * polystyrene_spectrum
    styrene_components_pred.append(c_styrene_opt)
    styrene_components_actual.append(volumes_df.iloc[i, 0] * 0.025 / 300)
    ps_components_pred.append(c_polystyrene_opt)
    ps_components_actual.append(volumes_df.iloc[i, 1] * 0.25 / 300)
  \<close>
  Unpacking \<open>None\<close> raises \<open>TypeError\<close>. An exception leaves \<open>process_samples\<close>: the lists
  built so far are lost. The state threaded through the loop is the four lists and
  the log.
\<close>

record samples_state =
  styrene_components_pred :: "npfloat list"
  styrene_components_actual :: "npfloat list"
  ps_components_pred :: "npfloat list"
  ps_components_actual :: "npfloat list"
  messages :: "string list"

definition process_row ::
  "dataframe \<Rightarrow> dataframe \<Rightarrow> npfloat list \<Rightarrow> npfloat list \<Rightarrow> int \<Rightarrow> int option
     \<Rightarrow> deconvolution_method \<Rightarrow> samples_state \<Rightarrow> nat \<Rightarrow> pyerror + samples_state" where
  "process_row data_df volumes_df styrene_spectrum polystyrene_spectrum range_start range_end
     deconvolution_method st i =
     (case fit_spectra (unknown_spectrum data_df i range_start range_end) styrene_spectrum
             polystyrene_spectrum deconvolution_method (messages st) of
        (None, msgs) \<Rightarrow> Inl TypeError
      | (Some (c_styrene_opt, c_polystyrene_opt), msgs) \<Rightarrow>
          bind_err (combine_spectra c_styrene_opt c_polystyrene_opt styrene_spectrum
                      polystyrene_spectrum) (\<lambda>fitted_spectrum.
          bind_err (iloc_cell volumes_df i 0) (\<lambda>v0.
          bind_err (to_concentration v0 0.025) (\<lambda>styrene_actual.
          bind_err (iloc_cell volumes_df i 1) (\<lambda>v1.
          bind_err (to_concentration v1 0.25) (\<lambda>ps_actual.
            Inr \<lparr>styrene_components_pred = styrene_components_pred st @ [c_styrene_opt],
                 styrene_components_actual = styrene_components_actual st @ [styrene_actual],
                 ps_components_pred = ps_components_pred st @ [c_polystyrene_opt],
                 ps_components_actual = ps_components_actual st @ [ps_actual],
                 messages = msgs\<rparr>))))))"

text \<open>The loop \<open>for i in range(data_df.shape[0])\<close>, as a recursion over the row numbers.\<close>

fun process_rows :: "(samples_state \<Rightarrow> nat \<Rightarrow> pyerror + samples_state) \<Rightarrow> samples_state \<Rightarrow> nat list
     \<Rightarrow> pyerror + samples_state" where
  "process_rows body st [] = Inr st"
| "process_rows body st (i # rest) =
     (case body st i of Inl e \<Rightarrow> Inl e | Inr st' \<Rightarrow> process_rows body st' rest)"

definition initial_samples_state :: "string list \<Rightarrow> samples_state" where
  "initial_samples_state msgs =
     \<lparr>styrene_components_pred = [], styrene_components_actual = [],
      ps_components_pred = [], ps_components_actual = [], messages = msgs\<rparr>"

definition process_samples ::
  "dataframe \<Rightarrow> dataframe \<Rightarrow> npfloat list \<Rightarrow> npfloat list \<Rightarrow> int \<Rightarrow> int option
     \<Rightarrow> deconvolution_method \<Rightarrow> string list \<Rightarrow> pyerror + samples_state" where
  "process_samples data_df volumes_df styrene_spectrum polystyrene_spectrum range_start range_end
     deconvolution_method msgs =
     process_rows
       (process_row data_df volumes_df styrene_spectrum polystyrene_spectrum range_start
          range_end deconvolution_method)
       (initial_samples_state msgs) [0..<nrows data_df]"

text \<open>
  The older \<open>process_samples\<close> calls its own \<open>fit_spectra\<close> directly (no \<open>try\<close>, so an
  exception of the fit leaves at once) and prints one line per sample after the four
  appends; the conversion of the volumes is the same two lines with \<open>.025\<close> and \<open>.25\<close>.
\<close>

definition process_row_prd ::
  "minimizer \<Rightarrow> dataframe \<Rightarrow> dataframe \<Rightarrow> npfloat list \<Rightarrow> npfloat list \<Rightarrow> int \<Rightarrow> int option
     \<Rightarrow> samples_state \<Rightarrow> nat \<Rightarrow> pyerror + samples_state" where
  "process_row_prd minimize data_df volumes_df styrene_spectrum polystyrene_spectrum range_start
     range_end st i =
     bind_err (fit_spectra_prd minimize (unknown_spectrum data_df i range_start range_end)
                 styrene_spectrum polystyrene_spectrum) (\<lambda>c.
       case c of (c_styrene_opt, c_polystyrene_opt) \<Rightarrow>
          bind_err (combine_spectra c_styrene_opt c_polystyrene_opt styrene_spectrum
                      polystyrene_spectrum) (\<lambda>fitted_spectrum.
          bind_err (iloc_cell volumes_df i 0) (\<lambda>v0.
          bind_err (to_concentration v0 0.025) (\<lambda>styrene_actual.
          bind_err (iloc_cell volumes_df i 1) (\<lambda>v1.
          bind_err (to_concentration v1 0.25) (\<lambda>ps_actual.
            Inr \<lparr>styrene_components_pred = styrene_components_pred st @ [c_styrene_opt],
                 styrene_components_actual = styrene_components_actual st @ [styrene_actual],
                 ps_components_pred = ps_components_pred st @ [c_polystyrene_opt],
                 ps_components_actual = ps_components_actual st @ [ps_actual],
                 messages = messages st @ [''Sample'']\<rparr>))))))"

definition process_samples_prd ::
  "minimizer \<Rightarrow> dataframe \<Rightarrow> dataframe \<Rightarrow> npfloat list \<Rightarrow> npfloat list \<Rightarrow> int \<Rightarrow> int option
     \<Rightarrow> string list \<Rightarrow> pyerror + samples_state" where
  "process_samples_prd minimize data_df volumes_df styrene_spectrum polystyrene_spectrum
     range_start range_end msgs =
     process_rows
       (process_row_prd minimize data_df volumes_df styrene_spectrum polystyrene_spectrum
          range_start range_end)
       (initial_samples_state msgs) [0..<nrows data_df]"

section \<open>The bounds handed to the optimiser\<close>

text \<open>
  The scripts do not clamp or test the coefficients themselves: the only thing that
  keeps them from being negative is the argument \<open>bounds=[(0, None), (0, None)]\<close> of
  \<open>scipy.optimize.minimize\<close>. The documentation of that routine gives \<open>bounds\<close> as one
  \<open>(min, max)\<close> pair per variable, \<open>None\<close> standing for no bound on that side, and a
  bounded method (L-BFGS-B is the default when bounds are given without constraints)
  returns a point \<open>x\<close> with \<open>min <= x <= max\<close> in every coordinate. That is a property
  of the library, taken from its documentation, not of the code of the repository; it
  is written down here as a predicate on the optimiser so that a statement about the
  scripts can assume it and name it.

  \<open>np_le\<close> is \<open><=\<close> on floats: every comparison with NaN is false.
\<close>

fun np_le :: "npfloat \<Rightarrow> npfloat \<Rightarrow> bool" where
  "np_le NaN _ = False"
| "np_le _ NaN = False"
| "np_le NInf _ = True"
| "np_le _ PInf = True"
| "np_le (Fin x) (Fin y) = (x \<le> y)"
| "np_le _ _ = False"

definition within_bound :: "npfloat option \<times> npfloat option \<Rightarrow> npfloat \<Rightarrow> bool" where
  "within_bound b v =
     (case b of (lo, hi) \<Rightarrow>
        (case lo of None \<Rightarrow> True | Some l \<Rightarrow> np_le l v) \<and>
        (case hi of None \<Rightarrow> True | Some h \<Rightarrow> np_le v h))"

text \<open>One pair of bounds per variable; the scripts fit two variables.\<close>

definition within_bounds :: "bounds \<Rightarrow> npfloat \<times> npfloat \<Rightarrow> bool" where
  "within_bounds bnds x = (case x of (x1, x2) \<Rightarrow> list_all2 within_bound bnds [x1, x2])"

text \<open>
  An optimiser honours its bounds when every result it returns, for whatever objective,
  start point and bounds, lies within the bounds it was given. It may also raise.
\<close>

definition honours_bounds :: "minimizer \<Rightarrow> bool" where
  "honours_bounds minimize \<longleftrightarrow>
     (\<forall>objective x0 bnds result.
        minimize objective x0 bnds = Inr result \<longrightarrow> within_bounds bnds (res_x result))"

text \<open>\<open>c1 >= 0 and c2 >= 0\<close> for a pair of coefficients.\<close>

definition nonneg_coefficients :: "npfloat \<times> npfloat \<Rightarrow> bool" where
  "nonneg_coefficients c = (case c of (c1, c2) \<Rightarrow> np_le (Fin 0) c1 \<and> np_le (Fin 0) c2)"

section \<open>Loading\<close>

text \<open>
  \<open>pd.read_csv\<close> reads the file system and parses: a library routine and an effect,
  taken as a parameter. A reader maps a path and the header mode (\<open>True\<close>: the first line
  is the header; \<open>False\<close>: \<open>header=None\<close>, the columns are numbered from zero) to the
  table or to the exception \<open>pd.read_csv\<close> raises. The loaders' own effect is printing;
  the state is the list of messages printed so far, a message modelled by its fixed
  prefix (the timestamp and the text of the exception are dropped).
\<close>

type_synonym csv_reader = "string \<Rightarrow> bool \<Rightarrow> pyerror + dataframe"

text \<open>
  \<open>df.columns = new_labels\<close> raises \<open>ValueError\<close> unless there is one label per column.
\<close>

definition set_columns :: "label list \<Rightarrow> dataframe \<Rightarrow> pyerror + dataframe" where
  "set_columns ls df =
     (if length ls = length (cols df) then Inr (df\<lparr>cols := zip ls (map snd (cols df))\<rparr>)
      else Inl ValueError)"

text \<open>\<open>['Row/Col'] + list(range(start_wavelength, end_wavelength + 1))\<close>\<close>

definition wavelength_labels :: "int \<Rightarrow> int \<Rightarrow> label list" where
  "wavelength_labels start_wavelength end_wavelength =
     LStr ''Row/Col'' # map LInt [start_wavelength..end_wavelength]"

subsection \<open>\<open>Curve Fitting & Machine Learning.py\<close>\<close>

text \<open>
  \<^verbatim>\<open>
    def load_data(path_input):
        try:
            return pd.read_csv(path_input)
        except FileNotFoundError as e:
            log_msg(f"Error: File not found - {e}")
        except pd.errors.EmptyDataError as e:
            log_msg(f"Error: Empty file - {e}")
        except Exception as e:
            log_msg(f"Error loading file: {e}")
        return pd.DataFrame()  # Return an empty DataFrame on failure

    def load_data_new(path, start_wavelength=220, end_wavelength=1000):
        try:
            df = pd.read_csv(path, header=None)
            df.columns = ['Row/Col'] + list(range(start_wavelength, end_wavelength + 1))
            return df
        except ...   # the same three handlers
        return pd.DataFrame()
  \<close>
\<close>

fun load_error_message :: "pyerror \<Rightarrow> string" where
  "load_error_message FileNotFoundError = ''Error: File not found''"
| "load_error_message EmptyDataError = ''Error: Empty file''"
| "load_error_message e = ''Error loading file''"

definition load_data :: "csv_reader \<Rightarrow> string \<Rightarrow> string list \<Rightarrow> dataframe \<times> string list" where
  "load_data read_csv path_input msgs =
     (case read_csv path_input True of
        Inr df \<Rightarrow> (df, msgs)
      | Inl e \<Rightarrow> (empty_frame, msgs @ [load_error_message e]))"

definition load_data_new ::
  "csv_reader \<Rightarrow> string \<Rightarrow> int \<Rightarrow> int \<Rightarrow> string list \<Rightarrow> dataframe \<times> string list" where
  "load_data_new read_csv path start_wavelength end_wavelength msgs =
     (case bind_err (read_csv path False)
             (set_columns (wavelength_labels start_wavelength end_wavelength)) of
        Inr df \<Rightarrow> (df, msgs)
      | Inl e \<Rightarrow> (empty_frame, msgs @ [load_error_message e]))"

subsection \<open>\<open>Background Correction for PRD Reader.py\<close>\<close>

text \<open>
  \<^verbatim>\<open>
    def load_data(path_input):
        try:
            return pd.read_csv(path_input)
        except Exception as e:
            print(f"Error loading file: {e}")
            return None

    def load_data_new(path):
        df = pd.read_csv(path, header=None)
        df.columns = ['Row/Col'] + list(range(220, 1001))
        return df
  \<close>
  The older \<open>load_data\<close> returns \<open>None\<close> on failure; the older \<open>load_data_new\<close> has no
  handler, so an exception of \<open>pd.read_csv\<close> or of the assignment leaves through the
  caller and nothing is printed.
\<close>

definition load_data_prd :: "csv_reader \<Rightarrow> string \<Rightarrow> string list \<Rightarrow> dataframe option \<times> string list" where
  "load_data_prd read_csv path_input msgs =
     (case read_csv path_input True of
        Inr df \<Rightarrow> (Some df, msgs)
      | Inl e \<Rightarrow> (None, msgs @ [''Error loading file'']))"

definition load_data_new_prd :: "csv_reader \<Rightarrow> string \<Rightarrow> pyerror + dataframe" where
  "load_data_new_prd read_csv path =
     bind_err (read_csv path False) (set_columns (wavelength_labels 220 1000))"

section \<open>The entry point of \<open>Background Correction for PRD Reader.py\<close>\<close>













section \<open>Reading a result\<close>

text \<open>
  The numeric cell of a table at a column label and a row number, when the table has a
  numeric column of that label and the row exists; the claims about background
  correction are stated cell by cell with it.
\<close>

definition num_cell :: "dataframe \<Rightarrow> label \<Rightarrow> nat \<Rightarrow> npfloat option" where
  "num_cell df l i =
     (case map_of (cols df) l of
        Some (NumCol xs) \<Rightarrow> if i < length xs then Some (xs ! i) else None
      | Some (ObjCol ys) \<Rightarrow> None
      | None \<Rightarrow> None)"

definition obj_column :: "dataframe \<Rightarrow> label \<Rightarrow> string option list option" where
  "obj_column df l =
     (case map_of (cols df) l of
        Some (ObjCol ys) \<Rightarrow> Some ys
      | Some (NumCol xs) \<Rightarrow> None
      | None \<Rightarrow> None)"

text \<open>A column minus its own cell at row \<open>k\<close>: what subtracting the blank row does to it.\<close>

definition blank_corrected :: "npfloat list \<Rightarrow> nat \<Rightarrow> npfloat list" where
  "blank_corrected d k = map (\<lambda>v. np_sub v (d ! k)) d"

section \<open>Concrete inputs\<close>

text \<open>
  An optimiser that stops at its start point and reports that it did not converge:
  it evaluates the objective once and returns the start point with \<open>success = False\<close>.
\<close>

definition stalled_minimize :: minimizer where
  "stalled_minimize objective x0 bnds =
     bind_err (objective x0) (\<lambda>v. Inr \<lparr>res_x = x0, res_success = False, res_fun = v\<rparr>)"

text \<open>
  An optimiser that honours its bounds: it refuses a start point outside them (and a
  list of bounds that is not one pair per variable) with \<open>ValueError\<close>, evaluates the
  objective at the start point and at the corner of the lower bounds (a coordinate
  without a lower bound keeps its start value), and returns whichever of the two has
  the smaller objective value.
\<close>

definition two_point_minimize :: minimizer where
  "two_point_minimize objective x0 bnds =
     (case bnds of
        [(lo1, hi1), (lo2, hi2)] \<Rightarrow>
          (let corner = (case lo1 of Some l \<Rightarrow> l | None \<Rightarrow> fst x0,
                         case lo2 of Some l \<Rightarrow> l | None \<Rightarrow> snd x0)
           in if within_bounds bnds x0 \<and> within_bounds bnds corner then
                bind_err (objective x0) (\<lambda>v0.
                bind_err (objective corner) (\<lambda>v1.
                  if np_le v1 v0
                  then Inr \<lparr>res_x = corner, res_success = True, res_fun = v1\<rparr>
                  else Inr \<lparr>res_x = x0, res_success = True, res_fun = v0\<rparr>))
              else Inl ValueError)
      | _ \<Rightarrow> Inl ValueError)"

text \<open>A file system on which no file exists.\<close>

definition missing_file_reader :: csv_reader where
  "missing_file_reader path header = Inl FileNotFoundError"

text \<open>
  A plate of two wells read at two wavelengths, as \<open>load_data_new\<close> labels it. The
  reading at 221 nm of the first well is the text the instrument writes on overflow,
  so pandas gives that column the dtype \<open>object\<close>.
\<close>

definition overflow_plate :: dataframe where
  "overflow_plate =
     \<lparr>nrows = 2,
      cols = [(LStr ''Row/Col'', ObjCol [Some ''A1'', Some ''A2'']),
              (LInt 220, NumCol [Fin 1, Fin 3]),
              (LInt 221, ObjCol [Some ''OVRFLW'', Some ''0.5''])]\<rparr>"

text \<open>
  A plate of two wells read at one wavelength, with the reading of the second well
  missing (an empty field of the CSV); the same plate with the reading of the first
  well missing instead; a background plate for them; and a plate with every reading
  present.
\<close>

definition gap_table :: dataframe where
  "gap_table =
     \<lparr>nrows = 2,
      cols = [(LStr ''Row/Col'', ObjCol [Some ''A1'', Some ''A2'']),
              (LInt 220, NumCol [Fin 1, NaN])]\<rparr>"

definition blank_gap_table :: dataframe where
  "blank_gap_table =
     \<lparr>nrows = 2,
      cols = [(LStr ''Row/Col'', ObjCol [Some ''A1'', Some ''A2'']),
              (LInt 220, NumCol [NaN, Fin 1])]\<rparr>"

definition background_table :: dataframe where
  "background_table =
     \<lparr>nrows = 2,
      cols = [(LStr ''Row/Col'', ObjCol [Some ''A1'', Some ''A2'']),
              (LInt 220, NumCol [Fin 0.25, Fin 0.5])]\<rparr>"

definition full_table :: dataframe where
  "full_table =
     \<lparr>nrows = 2,
      cols = [(LStr ''Row/Col'', ObjCol [Some ''A1'', Some ''A2'']),
              (LInt 220, NumCol [Fin 1, Fin 3])]\<rparr>"

text \<open>
  Two samples read at one wavelength, and the volumes dosed into them (styrene in the
  first column, polystyrene in the second).
\<close>

definition two_samples :: dataframe where
  "two_samples =
     \<lparr>nrows = 2,
      cols = [(LStr ''Row/Col'', ObjCol [Some ''A1'', Some ''A2'']),
              (LInt 220, NumCol [Fin 2, Fin 3])]\<rparr>"

definition two_volumes :: dataframe where
  "two_volumes =
     \<lparr>nrows = 2,
      cols = [(LStr ''styrene'', NumCol [Fin 30, Fin 60]),
              (LStr ''polystyrene'', NumCol [Fin 60, Fin 30])]\<rparr>"

text \<open>A metadata table with one row more than \<open>two_samples\<close>, and one with one row less.\<close>

definition three_volumes :: dataframe where
  "three_volumes =
     \<lparr>nrows = 3,
      cols = [(LStr ''styrene'', NumCol [Fin 30, Fin 60, Fin 90]),
              (LStr ''polystyrene'', NumCol [Fin 60, Fin 30, Fin 0])]\<rparr>"

definition one_volume :: dataframe where
  "one_volume =
     \<lparr>nrows = 1,
      cols = [(LStr ''styrene'', NumCol [Fin 30]),
              (LStr ''polystyrene'', NumCol [Fin 60])]\<rparr>"





section \<open>Facts about the numeric model\<close>

lemma np_sub_Fin [simp]: "np_sub (Fin x) (Fin y) = Fin (x - y)"
  by (simp add: np_sub_def)








section \<open>Claims about the goodness of fit\<close>




section \<open>Claims about the deconvolution\<close>

text \<open>
  C9, as the specification states it: when the optimiser does not converge, the
  deconvolution surfaces an explicit failure instead of returning the last iterate as
  a final answer. The code never reads \<open>result.success\<close>. With an optimiser that reports
  \<open>success = False\<close> at the start point \<open>(0.5, 0.5)\<close> with residual \<open>1\<close>, both
  \<open>least_squares_deconvolution\<close> and the older \<open>fit_spectra\<close> return \<open>(0.5, 0.5)\<close> as an
  ordinary result.
\<close>

theorem nonconvergence_accepted_counterexample:
  "stalled_minimize (residuals [Fin 2] [Fin 1] [Fin 1]) initial_guess nonneg_bounds =
     Inr \<lparr>res_x = (Fin 0.5, Fin 0.5), res_success = False, res_fun = Fin 1\<rparr> \<and>
   least_squares_deconvolution stalled_minimize [Fin 2] [Fin 1] [Fin 1] = Inr (Fin 0.5, Fin 0.5) \<and>
   fit_spectra_prd stalled_minimize [Fin 2] [Fin 1] [Fin 1] = Inr (Fin 0.5, Fin 0.5)"
  by (simp add: stalled_minimize_def residuals_def combine_spectra_def np_elementwise_def
      np_scale_def ss_res_def np_sum_def np_square_def bind_err_def initial_guess_def
      least_squares_deconvolution_def fit_spectra_prd_def)

text \<open>
  C9, amended to what the code does: whatever the optimiser returns without raising,
  converged or not, both functions return its last iterate \<open>result.x\<close> as the answer;
  the flag \<open>success\<close> and the residual \<open>fun\<close> are not looked at and not reported.
\<close>

theorem deconvolution_returns_last_iterate:
  assumes "minimize (residuals sample_spectrum styrene_spectrum polystyrene_spectrum)
             initial_guess nonneg_bounds = Inr result"
  shows "least_squares_deconvolution minimize sample_spectrum styrene_spectrum
           polystyrene_spectrum = Inr (res_x result) \<and>
         fit_spectra_prd minimize sample_spectrum styrene_spectrum polystyrene_spectrum =
           Inr (res_x result)"
  using assms by (simp add: least_squares_deconvolution_def fit_spectra_prd_def bind_err_def)

theorem deconvolution_returns_last_iterate_witness:
  "stalled_minimize (residuals [Fin 2] [Fin 1] [Fin 1]) initial_guess nonneg_bounds =
     Inr \<lparr>res_x = (Fin 0.5, Fin 0.5), res_success = False, res_fun = Fin 1\<rparr> \<and>
   least_squares_deconvolution stalled_minimize [Fin 2] [Fin 1] [Fin 1] =
     Inr (res_x \<lparr>res_x = (Fin 0.5, Fin 0.5), res_success = False, res_fun = Fin 1\<rparr>)"
proof -
  have run: "stalled_minimize (residuals [Fin 2] [Fin 1] [Fin 1]) initial_guess nonneg_bounds =
      Inr \<lparr>res_x = (Fin 0.5, Fin 0.5), res_success = False, res_fun = Fin 1\<rparr>"
    by (simp add: stalled_minimize_def residuals_def combine_spectra_def np_elementwise_def
        np_scale_def ss_res_def np_sum_def np_square_def bind_err_def initial_guess_def)
  from deconvolution_returns_last_iterate
      [of stalled_minimize "[Fin 2]" "[Fin 1]" "[Fin 1]", OF run] run
  show ?thesis by simp
qed

section \<open>Claims about loading\<close>

lemma load_data_recovers:
  "read_csv path_input True = Inl e \<Longrightarrow>
   load_data read_csv path_input msgs = (empty_frame, msgs @ [load_error_message e])"
  by (simp add: load_data_def)

lemma load_data_new_recovers:
  "read_csv path False = Inl e \<Longrightarrow>
   load_data_new read_csv path start_wavelength end_wavelength msgs =
     (empty_frame, msgs @ [load_error_message e])"
  by (simp add: load_data_new_def bind_err_def)

lemma load_data_new_never_raises:
  "\<exists>df msgs'. load_data_new read_csv path start_wavelength end_wavelength msgs = (df, msgs')"
  by simp

lemma load_data_prd_recovers:
  "read_csv path_input True = Inl e \<Longrightarrow>
   load_data_prd read_csv path_input msgs = (None, msgs @ [''Error loading file''])"
  by (simp add: load_data_prd_def)

lemma load_data_new_prd_propagates:
  "read_csv path False = Inl e \<Longrightarrow> load_data_new_prd read_csv path = Inl e"
  by (simp add: load_data_new_prd_def bind_err_def)

text \<open>
  C8: a path whose CSV cannot be read gives an empty result and a logged error, not an
  exception. On a missing file the two loaders of the newer script and \<open>load_data\<close> of
  the older one do so (the older \<open>load_data\<close> with \<open>None\<close> for the empty result), but
  \<open>load_data_new\<close> of the older script, which has no handler, raises
  \<open>FileNotFoundError\<close> and prints nothing.
\<close>

theorem load_data_new_prd_missing_file:
  "load_data missing_file_reader ''missing.csv'' [] = (empty_frame, [''Error: File not found'']) \<and>
   load_data_new missing_file_reader ''missing.csv'' 220 1000 [] =
     (empty_frame, [''Error: File not found'']) \<and>
   load_data_prd missing_file_reader ''missing.csv'' [] = (None, [''Error loading file'']) \<and>
   load_data_new_prd missing_file_reader ''missing.csv'' = Inl FileNotFoundError"
  by (simp add: load_data_def load_data_new_def load_data_prd_def load_data_new_prd_def
      missing_file_reader_def bind_err_def)

section \<open>Facts about tables\<close>

lemma num_part_mem: "(l, xs) \<in> set (num_part cs) \<longleftrightarrow> (l, NumCol xs) \<in> set cs"
  by (induction cs rule: num_part.induct) auto

lemma obj_part_mem: "(l, ys) \<in> set (obj_part cs) \<longleftrightarrow> (l, ObjCol ys) \<in> set cs"
  by (induction cs rule: obj_part.induct) auto

lemma fst_num_part: "set (map fst (num_part cs)) \<subseteq> set (map fst cs)"
  by (induction cs rule: num_part.induct) auto

lemma fst_obj_part: "set (map fst (obj_part cs)) \<subseteq> set (map fst cs)"
  by (induction cs rule: obj_part.induct) auto

lemma distinct_num_part: "distinct (map fst cs) \<Longrightarrow> distinct (map fst (num_part cs))"
  using fst_num_part by (induction cs rule: num_part.induct) auto

lemma distinct_obj_part: "distinct (map fst cs) \<Longrightarrow> distinct (map fst (obj_part cs))"
  using fst_obj_part by (induction cs rule: obj_part.induct) auto

lemma parts_disjoint:
  "distinct (map fst cs) \<Longrightarrow> set (map fst (num_part cs)) \<inter> set (map fst (obj_part cs)) = {}"
proof (rule ccontr)
  assume d: "distinct (map fst cs)"
  assume "set (map fst (num_part cs)) \<inter> set (map fst (obj_part cs)) \<noteq> {}"
  then obtain l xs ys where "(l, xs) \<in> set (num_part cs)" and "(l, ys) \<in> set (obj_part cs)"
    by auto
  then have "(l, NumCol xs) \<in> set cs" and "(l, ObjCol ys) \<in> set cs"
    by (simp_all add: num_part_mem obj_part_mem)
  with d have "NumCol xs = ObjCol ys"
    by (rule eq_key_imp_eq_value)
  then show False by simp
qed

lemma lookup_distinct:
  "distinct (map fst kvs) \<Longrightarrow> (k, v) \<in> set kvs \<Longrightarrow> map_of kvs k = Some v"
  by (induction kvs) (auto simp: rev_image_eqI)

lemma pad_rows_full [simp]: "length xs = n \<Longrightarrow> pad_rows n d xs = xs"
  by (simp add: pad_rows_def)

lemma align_labels_same [simp]: "align_labels a a = a"
  by (simp add: align_labels_def)

lemma np_sub_self: "np_sub v v = (if is_fin v then Fin 0 else NaN)"
  by (cases v) (simp_all add: np_sub_def)

lemma np_sub_NaN [simp]: "np_sub NaN v = NaN" "np_sub v NaN = NaN"
  by (cases v; simp add: np_sub_def)+

lemma sub_fill0_self: "sub_fill0 v v = (if is_fin v then Fin 0 else NaN)"
  by (cases v) (simp_all add: sub_fill0_def fill0_def np_sub_def)

lemma is_fin_np_sub: "is_fin (np_sub v w) \<longleftrightarrow> is_fin v \<and> is_fin w"
  by (cases v; cases w) (simp_all add: np_sub_def)

text \<open>Two numeric tables with the same labels and the same number of rows.\<close>

lemma aligned_op_same_shape:
  assumes "distinct (map fst ncs)"
    and "map fst pcs = map fst ncs"
    and "\<forall>c \<in> set ncs. length (snd c) = n"
    and "\<forall>c \<in> set pcs. length (snd c) = n"
  shows "aligned_op f \<lparr>nrows = n, cols = ncs\<rparr> \<lparr>nrows = n, cols = pcs\<rparr> =
         \<lparr>nrows = n,
          cols = map (\<lambda>c. (fst c, map2 f (snd c)
                       (col_or_missing \<lparr>nrows = n, cols = pcs\<rparr> (fst c)))) ncs\<rparr>"
proof -
  have own: "col_or_missing \<lparr>nrows = n, cols = ncs\<rparr> (fst c) = snd c" if "c \<in> set ncs" for c
  proof -
    from that have "(fst c, snd c) \<in> set ncs" by simp
    with assms(1) have "map_of ncs (fst c) = Some (snd c)" by (rule lookup_distinct)
    then show ?thesis by (simp add: col_or_missing_def)
  qed
  have other: "length (col_or_missing \<lparr>nrows = n, cols = pcs\<rparr> (fst c)) = n"
    if "c \<in> set ncs" for c
  proof -
    from that have "fst c \<in> set (map fst pcs)" using assms(2) by simp
    then obtain ys where "map_of pcs (fst c) = Some ys"
      by (metis map_of_eq_None_iff not_Some_eq set_map)
    moreover from this have "(fst c, ys) \<in> set pcs" by (rule map_of_SomeD)
    ultimately show ?thesis using assms(4) by (auto simp: col_or_missing_def)
  qed
  have "map (\<lambda>l. (l, map2 f (pad_rows n NaN (col_or_missing \<lparr>nrows = n, cols = ncs\<rparr> l))
                           (pad_rows n NaN (col_or_missing \<lparr>nrows = n, cols = pcs\<rparr> l))))
          (map fst ncs) =
        map (\<lambda>c. (fst c, map2 f (snd c) (col_or_missing \<lparr>nrows = n, cols = pcs\<rparr> (fst c)))) ncs"
    using own other assms(3) by (simp add: comp_def)
  then show ?thesis
    using assms(2) by (simp add: aligned_op_def columns_def)
qed

text \<open>Subtracting a row of a table from the table itself.\<close>

lemma subtract_own_row:
  assumes "distinct (columns df)"
  shows "subtract_series_axis1 df (row_at df k) =
         df\<lparr>cols := map (\<lambda>c. (fst c, map (\<lambda>v. np_sub v (snd c ! k)) (snd c))) (cols df)\<rparr>"
proof -
  have "map_of (row_at df k) (fst c) = Some (snd c ! k)" if "c \<in> set (cols df)" for c
  proof (rule lookup_distinct)
    show "distinct (map fst (row_at df k))"
      using assms by (simp add: row_at_def columns_def comp_def)
    show "(fst c, snd c ! k) \<in> set (row_at df k)"
      using that by (auto simp: row_at_def)
  qed
  then show ?thesis
    by (simp add: subtract_series_axis1_def)
qed

text \<open>Looking a column up after \<open>pd.concat\<close> has put the non-numeric columns first.\<close>

lemma concat_distinct:
  assumes "distinct (map fst cs)"
  shows "distinct (map fst (map (\<lambda>c. (fst c, ObjCol (snd c))) (obj_part cs)
                          @ map (\<lambda>c. (fst c, NumCol (g c))) (num_part cs)))"
  using distinct_num_part [OF assms] distinct_obj_part [OF assms] parts_disjoint [OF assms]
  by (auto simp: comp_def)

lemma recombine_data_char:
  assumes dist: "distinct (map fst cs)"
    and len: "\<forall>c \<in> set cs. col_length (snd c) = n"
    and leng: "\<forall>c \<in> set (num_part cs). length (g c) = n"
  shows "recombine_data \<lparr>nrows = n, cols = map (\<lambda>c. (fst c, g c)) (num_part cs)\<rparr>
           \<lparr>nrows = n, cols = obj_part cs\<rparr> (map fst cs) =
         \<lparr>nrows = n,
          cols = map (\<lambda>c. (fst c, case snd c of NumCol xs \<Rightarrow> NumCol (g (fst c, xs))
                                     | ObjCol ys \<Rightarrow> ObjCol ys)) cs\<rparr>"
proof -
  let ?T = "map (\<lambda>c. (fst c, ObjCol (snd c))) (obj_part cs)
            @ map (\<lambda>c. (fst c, NumCol (g c))) (num_part cs)"
  have olen: "length (snd c) = n" if "c \<in> set (obj_part cs)" for c
  proof -
    from that have "(fst c, ObjCol (snd c)) \<in> set cs"
      using obj_part_mem [of "fst c" "snd c" cs] by simp
    with len show ?thesis by fastforce
  qed
  have concat: "concat_axis1 \<lparr>nrows = n, cols = obj_part cs\<rparr>
      \<lparr>nrows = n, cols = map (\<lambda>c. (fst c, g c)) (num_part cs)\<rparr> = \<lparr>nrows = n, cols = ?T\<rparr>"
    using olen leng by (simp add: concat_axis1_def comp_def)
  have look: "map_of ?T (fst c) =
      Some (case snd c of NumCol xs \<Rightarrow> NumCol (g (fst c, xs)) | ObjCol ys \<Rightarrow> ObjCol ys)"
    if "c \<in> set cs" for c
  proof (rule lookup_distinct [OF concat_distinct [OF dist]])
    show "(fst c, case snd c of NumCol xs \<Rightarrow> NumCol (g (fst c, xs)) | ObjCol ys \<Rightarrow> ObjCol ys)
        \<in> set ?T"
    proof (cases "snd c")
      case (NumCol xs)
      with that have "(fst c, xs) \<in> set (num_part cs)"
        using num_part_mem [of "fst c" xs cs] by (metis prod.collapse)
      then show ?thesis using NumCol by force
    next
      case (ObjCol ys)
      with that have "(fst c, ys) \<in> set (obj_part cs)"
        using obj_part_mem [of "fst c" ys cs] by (metis prod.collapse)
      then show ?thesis using ObjCol by force
    qed
  qed
  show ?thesis
    unfolding recombine_data_def concat
    using look by (simp add: reindex_columns_def comp_def)
qed

lemma wf_frame_distinct: "wf_frame df \<Longrightarrow> distinct (map fst (cols df))"
  by (simp add: wf_frame_def columns_def)

lemma wf_frame_lengths: "wf_frame df \<Longrightarrow> \<forall>c \<in> set (cols df). col_length (snd c) = nrows df"
  by (simp add: wf_frame_def list_all_iff)

lemma wf_frame_num_lengths:
  assumes "wf_frame df"
  shows "\<forall>c \<in> set (num_part (cols df)). length (snd c) = nrows df"
proof
  fix c assume "c \<in> set (num_part (cols df))"
  then have "(fst c, NumCol (snd c)) \<in> set (cols df)"
    using num_part_mem [of "fst c" "snd c" "cols df"] by simp
  with wf_frame_lengths [OF assms] show "length (snd c) = nrows df" by fastforce
qed

lemma py_index_bound: "py_index n i = Inr k \<Longrightarrow> k < n"
  by (auto simp: py_index_def split: if_splits)

text \<open>
  The whole result of the newer \<open>separate_subtract_and_recombine\<close> on two tables whose
  numeric columns carry the same labels and which have the same number of rows.
\<close>

lemma separate_subtract_and_recombine_same_shape:
  assumes wr: "wf_frame raw_df" and wp: "wf_frame plate_data"
    and labs: "columns (select_dtypes_include_number plate_data) =
               columns (select_dtypes_include_number raw_df)"
    and rows: "nrows plate_data = nrows raw_df"
    and idx: "py_index (nrows raw_df) blank_index = Inr k"
  shows "separate_subtract_and_recombine raw_df plate_data blank_index =
         Inr \<lparr>nrows = nrows raw_df,
              cols = map (\<lambda>c. (fst c,
                case snd c of
                  NumCol xs \<Rightarrow> NumCol (blank_corrected
                    (map2 np_sub xs
                       (col_or_missing (select_dtypes_include_number plate_data) (fst c))) k)
                | ObjCol ys \<Rightarrow> ObjCol ys)) (cols raw_df)\<rparr>"
proof -
  let ?n = "nrows raw_df"
  let ?ncs = "num_part (cols raw_df)" and ?pcs = "num_part (cols plate_data)"
  let ?P = "\<lparr>nrows = ?n, cols = ?pcs\<rparr>"
  let ?d = "\<lambda>c. map2 np_sub (snd c) (col_or_missing ?P (fst c))"
  let ?D = "\<lparr>nrows = ?n, cols = map (\<lambda>c. (fst c, ?d c)) ?ncs\<rparr>"
  let ?g = "\<lambda>c. blank_corrected (?d c) k"
  have selp: "select_dtypes_include_number plate_data = ?P"
    using rows by (simp add: select_dtypes_include_number_def)
  have dn: "distinct (map fst ?ncs)"
    using wr by (intro distinct_num_part wf_frame_distinct)
  have same: "map fst ?pcs = map fst ?ncs"
    using labs by (simp add: columns_def select_dtypes_include_number_def)
  have nlen: "\<forall>c \<in> set ?ncs. length (snd c) = ?n"
    by (rule wf_frame_num_lengths [OF wr])
  have plen: "\<forall>c \<in> set ?pcs. length (snd c) = ?n"
    using wf_frame_num_lengths [OF wp] rows by simp
  have sub: "frame_sub \<lparr>nrows = ?n, cols = ?ncs\<rparr> ?P = ?D"
    unfolding frame_sub_def by (rule aligned_op_same_shape [OF dn same nlen plen])
  have dlen: "length (?d c) = ?n" if "c \<in> set ?ncs" for c
  proof -
    from that have "fst c \<in> set (map fst ?pcs)" using same by simp
    then obtain ys where "map_of ?pcs (fst c) = Some ys"
      by (metis map_of_eq_None_iff not_Some_eq set_map)
    moreover from this have "(fst c, ys) \<in> set ?pcs" by (rule map_of_SomeD)
    ultimately have "length (col_or_missing ?P (fst c)) = ?n"
      using plen by (auto simp: col_or_missing_def)
    with that nlen show ?thesis by simp
  qed
  have row: "iloc_row ?D blank_index = Inr (row_at ?D k)"
    using idx by (simp add: iloc_row_def bind_err_def)
  have "distinct (columns ?D)"
    using dn by (simp add: columns_def comp_def)
  then have own: "subtract_series_axis1 ?D (row_at ?D k) =
      \<lparr>nrows = ?n, cols = map (\<lambda>c. (fst c, ?g c)) ?ncs\<rparr>"
    by (simp add: subtract_own_row blank_corrected_def comp_def)
  have rec: "recombine_data \<lparr>nrows = ?n, cols = map (\<lambda>c. (fst c, ?g c)) ?ncs\<rparr>
      \<lparr>nrows = ?n, cols = obj_part (cols raw_df)\<rparr> (map fst (cols raw_df)) =
      \<lparr>nrows = ?n, cols = map (\<lambda>c. (fst c, case snd c of NumCol xs \<Rightarrow> NumCol (?g (fst c, xs))
                                     | ObjCol ys \<Rightarrow> ObjCol ys)) (cols raw_df)\<rparr>"
  proof (rule recombine_data_char)
    show "distinct (map fst (cols raw_df))" by (rule wf_frame_distinct [OF wr])
    show "\<forall>c \<in> set (cols raw_df). col_length (snd c) = ?n" by (rule wf_frame_lengths [OF wr])
    show "\<forall>c \<in> set ?ncs. length (?g c) = ?n" using dlen by (simp add: blank_corrected_def)
  qed
  show ?thesis
    unfolding separate_subtract_and_recombine_def separate_columns_def selp
    by (simp add: select_dtypes_include_number_def select_dtypes_exclude_number_def
        columns_def sub row bind_err_def own rec split: column.split)
qed

text \<open>Looking a column up in a result, in terms of the raw table.\<close>

lemma map_of_mapped:
  "map_of (map (\<lambda>c. (fst c, t c)) cs) l = map_option (\<lambda>v. t (l, v)) (map_of cs l)"
  by (induction cs) auto

lemma map_of_num_part:
  assumes "distinct (map fst cs)"
  shows "map_of (num_part cs) l =
         (case map_of cs l of Some (NumCol xs) \<Rightarrow> Some xs | Some (ObjCol ys) \<Rightarrow> None | None \<Rightarrow> None)"
proof (cases "map_of cs l")
  case None
  then have "l \<notin> set (map fst (num_part cs))"
    using fst_num_part [of cs] by (auto simp: map_of_eq_None_iff)
  then have "map_of (num_part cs) l = None" by (simp add: map_of_eq_None_iff)
  with None show ?thesis by simp
next
  case (Some c)
  then have mem: "(l, c) \<in> set cs" by (rule map_of_SomeD)
  show ?thesis
  proof (cases c)
    case (NumCol xs)
    with mem have "(l, xs) \<in> set (num_part cs)" by (simp add: num_part_mem)
    with distinct_num_part [OF assms] have "map_of (num_part cs) l = Some xs"
      by (rule lookup_distinct)
    then show ?thesis using Some NumCol by simp
  next
    case (ObjCol ys)
    with mem have "(l, ys) \<in> set (obj_part cs)" by (simp add: obj_part_mem)
    then have "l \<in> set (map fst (obj_part cs))" by force
    with parts_disjoint [OF assms] have "l \<notin> set (map fst (num_part cs))" by blast
    then have "map_of (num_part cs) l = None" by (simp add: map_of_eq_None_iff)
    then show ?thesis using Some ObjCol by simp
  qed
qed

lemma concat_lookup:
  assumes "distinct (map fst cs)"
  shows "map_of (map (\<lambda>c. (fst c, ObjCol (snd c))) (obj_part cs)
                 @ map (\<lambda>c. (fst c, NumCol (g c))) (num_part cs)) l =
         map_option (\<lambda>c. case c of NumCol xs \<Rightarrow> NumCol (g (l, xs)) | ObjCol ys \<Rightarrow> ObjCol ys)
           (map_of cs l)"
    (is "map_of ?T l = _")
proof (cases "map_of cs l")
  case None
  then have "l \<notin> set (map fst cs)" by (simp add: map_of_eq_None_iff)
  then have "l \<notin> set (map fst ?T)"
    using fst_num_part [of cs] fst_obj_part [of cs] by (auto simp: comp_def)
  then have "map_of ?T l = None" by (simp only: map_of_eq_None_iff set_map not_False_eq_True)
  with None show ?thesis by simp
next
  case (Some c)
  then have mem: "(l, c) \<in> set cs" by (rule map_of_SomeD)
  have "(l, case c of NumCol xs \<Rightarrow> NumCol (g (l, xs)) | ObjCol ys \<Rightarrow> ObjCol ys) \<in> set ?T"
  proof (cases c)
    case (NumCol xs)
    with mem have "(l, xs) \<in> set (num_part cs)" by (simp add: num_part_mem)
    then show ?thesis using NumCol by force
  next
    case (ObjCol ys)
    with mem have "(l, ys) \<in> set (obj_part cs)" by (simp add: obj_part_mem)
    then show ?thesis using ObjCol by force
  qed
  with concat_distinct [OF assms] have "map_of ?T l =
      Some (case c of NumCol xs \<Rightarrow> NumCol (g (l, xs)) | ObjCol ys \<Rightarrow> ObjCol ys)"
    by (rule lookup_distinct)
  then show ?thesis using Some by simp
qed

text \<open>
  The numeric cells of a result whose numeric columns are the raw columns combined
  with the plate's by \<open>f\<close> and then blank-corrected at row \<open>k\<close>.
\<close>

lemma cells_of_corrected:
  assumes wr: "wf_frame raw_df" and wp: "wf_frame plate_data"
    and labs: "columns (select_dtypes_include_number plate_data) =
               columns (select_dtypes_include_number raw_df)"
    and rows: "nrows plate_data = nrows raw_df"
    and k: "k < nrows raw_df"
    and out: "\<And>l. map_of (cols out) l =
        map_option (\<lambda>c. case c of
            NumCol xs \<Rightarrow> NumCol (blank_corrected
              (map2 f xs (col_or_missing (select_dtypes_include_number plate_data) l)) k)
          | ObjCol ys \<Rightarrow> ObjCol ys) (map_of (cols raw_df) l)"
  shows "num_cell out l i =
         (case (num_cell raw_df l i, num_cell plate_data l i,
                num_cell raw_df l k, num_cell plate_data l k) of
            (Some r, Some p, Some rk, Some pk) \<Rightarrow> Some (np_sub (f r p) (f rk pk))
          | _ \<Rightarrow> None)"
proof (cases "map_of (cols raw_df) l")
  case None
  then show ?thesis by (simp add: num_cell_def out)
next
  case (Some c)
  then have mem: "(l, c) \<in> set (cols raw_df)" by (rule map_of_SomeD)
  show ?thesis
  proof (cases c)
    case (ObjCol ys)
    then show ?thesis using Some by (simp add: num_cell_def out)
  next
    case (NumCol xs)
    have xlen: "length xs = nrows raw_df"
      using wf_frame_lengths [OF wr] mem NumCol by fastforce
    have "map_of (num_part (cols raw_df)) l = Some xs"
      using Some NumCol by (simp add: map_of_num_part [OF wf_frame_distinct [OF wr]])
    then have "l \<in> set (map fst (num_part (cols raw_df)))"
      by (metis map_of_eq_None_iff option.distinct(1) set_map)
    then have "l \<in> set (map fst (num_part (cols plate_data)))"
      using labs by (simp add: columns_def select_dtypes_include_number_def)
    then obtain ps where ps: "map_of (num_part (cols plate_data)) l = Some ps"
      by (metis map_of_eq_None_iff not_Some_eq set_map)
    then have pl: "map_of (cols plate_data) l = Some (NumCol ps)"
      by (simp add: map_of_num_part [OF wf_frame_distinct [OF wp]]
          split: option.splits column.splits)
    then have "(l, NumCol ps) \<in> set (cols plate_data)" by (rule map_of_SomeD)
    then have plen: "length ps = nrows raw_df"
      using wf_frame_lengths [OF wp] rows by fastforce
    have colp: "col_or_missing (select_dtypes_include_number plate_data) l = ps"
      using ps by (simp add: col_or_missing_def select_dtypes_include_number_def)
    show ?thesis
      using Some NumCol pl xlen plen k
      by (simp add: num_cell_def out colp blank_corrected_def)
  qed
qed

lemma concat_axis1_same_rows:
  assumes "\<forall>c \<in> set ocs. length (snd c) = n" and "\<forall>c \<in> set ncs. length (snd c) = n"
  shows "concat_axis1 \<lparr>nrows = n, cols = ocs\<rparr> \<lparr>nrows = n, cols = ncs\<rparr> =
         \<lparr>nrows = n,
          cols = map (\<lambda>c. (fst c, ObjCol (snd c))) ocs @ map (\<lambda>c. (fst c, NumCol (snd c))) ncs\<rparr>"
  using assms by (simp add: concat_axis1_def)

lemma wf_frame_obj_lengths:
  assumes "wf_frame df"
  shows "\<forall>c \<in> set (obj_part (cols df)). length (snd c) = nrows df"
proof
  fix c assume "c \<in> set (obj_part (cols df))"
  then have "(fst c, ObjCol (snd c)) \<in> set (cols df)"
    using obj_part_mem [of "fst c" "snd c" "cols df"] by simp
  with wf_frame_lengths [OF assms] show "length (snd c) = nrows df" by fastforce
qed

text \<open>
  The whole result of the older \<open>separate_subtract_and_recombine\<close> on two tables of the
  same shape: the non-numeric columns first, then the corrected numeric columns.
\<close>

lemma separate_subtract_and_recombine_prd_same_shape:
  assumes wr: "wf_frame raw_df" and wp: "wf_frame plate_data"
    and labs: "columns (select_dtypes_include_number plate_data) =
               columns (select_dtypes_include_number raw_df)"
    and rows: "nrows plate_data = nrows raw_df"
    and pos: "0 < nrows raw_df"
  shows "separate_subtract_and_recombine_prd raw_df plate_data =
         Inr \<lparr>nrows = nrows raw_df,
              cols = map (\<lambda>c. (fst c, ObjCol (snd c))) (obj_part (cols raw_df))
                   @ map (\<lambda>c. (fst c, NumCol (blank_corrected
                        (map2 sub_fill0 (snd c)
                           (col_or_missing (select_dtypes_include_number plate_data) (fst c))) 0)))
                       (num_part (cols raw_df))\<rparr>"
proof -
  let ?n = "nrows raw_df"
  let ?ncs = "num_part (cols raw_df)" and ?pcs = "num_part (cols plate_data)"
  let ?P = "\<lparr>nrows = ?n, cols = ?pcs\<rparr>"
  let ?d = "\<lambda>c. map2 sub_fill0 (snd c) (col_or_missing ?P (fst c))"
  let ?D = "\<lparr>nrows = ?n, cols = map (\<lambda>c. (fst c, ?d c)) ?ncs\<rparr>"
  let ?g = "\<lambda>c. blank_corrected (?d c) 0"
  have selp: "select_dtypes_include_number plate_data = ?P"
    using rows by (simp add: select_dtypes_include_number_def)
  have dn: "distinct (map fst ?ncs)"
    using wr by (intro distinct_num_part wf_frame_distinct)
  have same: "map fst ?pcs = map fst ?ncs"
    using labs by (simp add: columns_def select_dtypes_include_number_def)
  have nlen: "\<forall>c \<in> set ?ncs. length (snd c) = ?n"
    by (rule wf_frame_num_lengths [OF wr])
  have plen: "\<forall>c \<in> set ?pcs. length (snd c) = ?n"
    using wf_frame_num_lengths [OF wp] rows by simp
  have sub: "subtract_background \<lparr>nrows = ?n, cols = ?ncs\<rparr> ?P = ?D"
    unfolding subtract_background_def subtract_fill0_def
    by (rule aligned_op_same_shape [OF dn same nlen plen])
  have dlen: "length (?d c) = ?n" if "c \<in> set ?ncs" for c
  proof -
    from that have "fst c \<in> set (map fst ?pcs)" using same by simp
    then obtain ys where "map_of ?pcs (fst c) = Some ys"
      by (metis map_of_eq_None_iff not_Some_eq set_map)
    moreover from this have "(fst c, ys) \<in> set ?pcs" by (rule map_of_SomeD)
    ultimately have "length (col_or_missing ?P (fst c)) = ?n"
      using plen by (auto simp: col_or_missing_def)
    with that nlen show ?thesis by simp
  qed
  have blank: "subtract_blank_row ?D = Inr \<lparr>nrows = ?n, cols = map (\<lambda>c. (fst c, ?g c)) ?ncs\<rparr>"
    using pos by (simp add: subtract_blank_row_def blank_corrected_def comp_def)
  have cat: "concat_axis1 \<lparr>nrows = ?n, cols = obj_part (cols raw_df)\<rparr>
        \<lparr>nrows = ?n, cols = map (\<lambda>c. (fst c, ?g c)) ?ncs\<rparr> =
      \<lparr>nrows = ?n, cols = map (\<lambda>c. (fst c, ObjCol (snd c))) (obj_part (cols raw_df))
                          @ map (\<lambda>c. (fst c, NumCol (?g c))) ?ncs\<rparr>"
    using concat_axis1_same_rows [of "obj_part (cols raw_df)" ?n "map (\<lambda>c. (fst c, ?g c)) ?ncs"]
      wf_frame_obj_lengths [OF wr] dlen
    by (simp add: blank_corrected_def comp_def)
  show ?thesis
    unfolding separate_subtract_and_recombine_prd_def separate_columns_def selp
    by (simp add: select_dtypes_include_number_def select_dtypes_exclude_number_def
        sub blank bind_err_def recombine_data_prd_def cat)
qed

text \<open>
  The numeric cells of both results on two tables of the same shape, cell by cell.
\<close>

lemma corrected_cells_same_shape:
  assumes wr: "wf_frame raw_df" and wp: "wf_frame plate_data"
    and labs: "columns (select_dtypes_include_number plate_data) =
               columns (select_dtypes_include_number raw_df)"
    and rows: "nrows plate_data = nrows raw_df"
    and idx: "py_index (nrows raw_df) blank_index = Inr k"
  shows "\<exists>out out_prd.
     separate_subtract_and_recombine raw_df plate_data blank_index = Inr out \<and>
     (\<forall>l i. num_cell out l i =
        (case (num_cell raw_df l i, num_cell plate_data l i,
               num_cell raw_df l k, num_cell plate_data l k) of
           (Some r, Some p, Some rk, Some pk) \<Rightarrow> Some (np_sub (np_sub r p) (np_sub rk pk))
         | _ \<Rightarrow> None)) \<and>
     (\<forall>l. num_cell out l k =
        (case (num_cell raw_df l k, num_cell plate_data l k) of
           (Some rk, Some pk) \<Rightarrow> Some (if is_fin rk \<and> is_fin pk then Fin 0 else NaN)
         | _ \<Rightarrow> None)) \<and>
     separate_subtract_and_recombine_prd raw_df plate_data = Inr out_prd \<and>
     (\<forall>l i. num_cell out_prd l i =
        (case (num_cell raw_df l i, num_cell plate_data l i,
               num_cell raw_df l 0, num_cell plate_data l 0) of
           (Some r, Some p, Some r0, Some p0) \<Rightarrow> Some (np_sub (sub_fill0 r p) (sub_fill0 r0 p0))
         | _ \<Rightarrow> None)) \<and>
     (\<forall>l. num_cell out_prd l 0 =
        (case (num_cell raw_df l 0, num_cell plate_data l 0) of
           (Some r0, Some p0) \<Rightarrow> Some (if is_fin (sub_fill0 r0 p0) then Fin 0 else NaN)
         | _ \<Rightarrow> None))"
proof -
  have k: "k < nrows raw_df" using idx by (rule py_index_bound)
  then have pos: "0 < nrows raw_df" by simp
  obtain out where out: "separate_subtract_and_recombine raw_df plate_data blank_index = Inr out"
    and outc: "cols out = map (\<lambda>c. (fst c,
                case snd c of
                  NumCol xs \<Rightarrow> NumCol (blank_corrected
                    (map2 np_sub xs
                       (col_or_missing (select_dtypes_include_number plate_data) (fst c))) k)
                | ObjCol ys \<Rightarrow> ObjCol ys)) (cols raw_df)"
    using separate_subtract_and_recombine_same_shape [OF wr wp labs rows idx] by simp
  obtain out_prd where prd: "separate_subtract_and_recombine_prd raw_df plate_data = Inr out_prd"
    and prdc: "cols out_prd = map (\<lambda>c. (fst c, ObjCol (snd c))) (obj_part (cols raw_df))
                   @ map (\<lambda>c. (fst c, NumCol (blank_corrected
                        (map2 sub_fill0 (snd c)
                           (col_or_missing (select_dtypes_include_number plate_data) (fst c))) 0)))
                       (num_part (cols raw_df))"
    using separate_subtract_and_recombine_prd_same_shape [OF wr wp labs rows pos] by simp
  have cells: "num_cell out l i =
        (case (num_cell raw_df l i, num_cell plate_data l i,
               num_cell raw_df l k, num_cell plate_data l k) of
           (Some r, Some p, Some rk, Some pk) \<Rightarrow> Some (np_sub (np_sub r p) (np_sub rk pk))
         | _ \<Rightarrow> None)" for l i
    by (rule cells_of_corrected [OF wr wp labs rows k])
      (simp add: outc map_of_mapped cong: column.case_cong)
  have cells_prd: "num_cell out_prd l i =
        (case (num_cell raw_df l i, num_cell plate_data l i,
               num_cell raw_df l 0, num_cell plate_data l 0) of
           (Some r, Some p, Some r0, Some p0) \<Rightarrow> Some (np_sub (sub_fill0 r p) (sub_fill0 r0 p0))
         | _ \<Rightarrow> None)" for l i
  proof (rule cells_of_corrected [OF wr wp labs rows pos])
    fix l'
    show "map_of (cols out_prd) l' =
        map_option (\<lambda>c. case c of
            NumCol xs \<Rightarrow> NumCol (blank_corrected
              (map2 sub_fill0 xs (col_or_missing (select_dtypes_include_number plate_data) l')) 0)
          | ObjCol ys \<Rightarrow> ObjCol ys) (map_of (cols raw_df) l')"
      unfolding prdc
      using concat_lookup [OF wf_frame_distinct [OF wr],
          of "\<lambda>c. blank_corrected (map2 sub_fill0 (snd c)
               (col_or_missing (select_dtypes_include_number plate_data) (fst c))) 0" l']
      by (simp cong: column.case_cong)
  qed
  have blank: "num_cell out l k =
        (case (num_cell raw_df l k, num_cell plate_data l k) of
           (Some rk, Some pk) \<Rightarrow> Some (if is_fin rk \<and> is_fin pk then Fin 0 else NaN)
         | _ \<Rightarrow> None)" for l
    by (simp add: cells [of l k] np_sub_self is_fin_np_sub split: option.splits)
  have blank_prd: "num_cell out_prd l 0 =
        (case (num_cell raw_df l 0, num_cell plate_data l 0) of
           (Some r0, Some p0) \<Rightarrow> Some (if is_fin (sub_fill0 r0 p0) then Fin 0 else NaN)
         | _ \<Rightarrow> None)" for l
    by (simp add: cells_prd [of l 0] np_sub_self split: option.splits)
  from out prd cells blank cells_prd blank_prd show ?thesis by blast
qed


section \<open>Claims about background correction\<close>

text \<open>
  C4, as the specification states it: for a raw table and a background table with
  matching numeric columns, every numeric cell of the result is
  \<open>raw[i][\<lambda>] - background[i][\<lambda>]\<close> minus the blank row's corrected value at \<open>\<lambda>\<close>, and the row
  at the blank index is all zeros. The second half fails on a table whose blank row has
  a missing reading: the blank row's corrected value is NaN, and NaN minus NaN is NaN,
  in the blank row and in every other row of that column. And no table is produced
  when the blank index is not a row of the table: the lookup raises \<open>IndexError\<close>.
\<close>

theorem blank_row_not_zero_counterexample:
  "separate_subtract_and_recombine blank_gap_table background_table 0 =
     Inr \<lparr>nrows = 2,
          cols = [(LStr ''Row/Col'', ObjCol [Some ''A1'', Some ''A2'']),
                  (LInt 220, NumCol [NaN, NaN])]\<rparr> \<and>
   separate_subtract_and_recombine blank_gap_table background_table 2 = Inl IndexError"
  by (simp add: separate_subtract_and_recombine_def separate_columns_def
      select_dtypes_include_number_def select_dtypes_exclude_number_def blank_gap_table_def
      background_table_def frame_sub_def aligned_op_def columns_def col_or_missing_def
      pad_rows_def iloc_row_def py_index_def row_at_def bind_err_def subtract_series_axis1_def
      recombine_data_def reindex_columns_def concat_axis1_def np_sub_def)

text \<open>
  C4, amended to what the code does. For well-formed tables with the same numeric
  column labels and the same number of rows, and a blank index in range (row \<open>k\<close>), the
  newer \<open>separate_subtract_and_recombine\<close> returns a table whose numeric cells are
  exactly \<open>(raw - background) - (raw[k] - background[k])\<close> in float arithmetic, and whose
  row \<open>k\<close> is zero in every column where the raw and the background reading of row \<open>k\<close>
  are both finite and NaN in the others. The older function does the same with row
  \<open>0\<close> as the blank and with \<open>subtract(fill_value=0)\<close> for the first subtraction.
\<close>

theorem background_correction_cells:
  assumes wr: "wf_frame raw_df" and wp: "wf_frame plate_data"
    and labs: "columns (select_dtypes_include_number plate_data) =
               columns (select_dtypes_include_number raw_df)"
    and rows: "nrows plate_data = nrows raw_df"
    and idx: "py_index (nrows raw_df) blank_index = Inr k"
  shows "\<exists>out out_prd.
     separate_subtract_and_recombine raw_df plate_data blank_index = Inr out \<and>
     (\<forall>l i. num_cell out l i =
        (case (num_cell raw_df l i, num_cell plate_data l i,
               num_cell raw_df l k, num_cell plate_data l k) of
           (Some r, Some p, Some rk, Some pk) \<Rightarrow> Some (np_sub (np_sub r p) (np_sub rk pk))
         | _ \<Rightarrow> None)) \<and>
     (\<forall>l. num_cell out l k =
        (case (num_cell raw_df l k, num_cell plate_data l k) of
           (Some rk, Some pk) \<Rightarrow> Some (if is_fin rk \<and> is_fin pk then Fin 0 else NaN)
         | _ \<Rightarrow> None)) \<and>
     separate_subtract_and_recombine_prd raw_df plate_data = Inr out_prd \<and>
     (\<forall>l i. num_cell out_prd l i =
        (case (num_cell raw_df l i, num_cell plate_data l i,
               num_cell raw_df l 0, num_cell plate_data l 0) of
           (Some r, Some p, Some r0, Some p0) \<Rightarrow> Some (np_sub (sub_fill0 r p) (sub_fill0 r0 p0))
         | _ \<Rightarrow> None)) \<and>
     (\<forall>l. num_cell out_prd l 0 =
        (case (num_cell raw_df l 0, num_cell plate_data l 0) of
           (Some r0, Some p0) \<Rightarrow> Some (if is_fin (sub_fill0 r0 p0) then Fin 0 else NaN)
         | _ \<Rightarrow> None))"
  using corrected_cells_same_shape [OF assms] .

theorem background_correction_cells_witness:
  "wf_frame full_table \<and> wf_frame background_table \<and>
   columns (select_dtypes_include_number background_table) =
     columns (select_dtypes_include_number full_table) \<and>
   nrows background_table = nrows full_table \<and>
   py_index (nrows full_table) 0 = Inr 0 \<and>
   (\<exists>out out_prd.
     separate_subtract_and_recombine full_table background_table 0 = Inr out \<and>
     (\<forall>l i. num_cell out l i =
        (case (num_cell full_table l i, num_cell background_table l i,
               num_cell full_table l 0, num_cell background_table l 0) of
           (Some r, Some p, Some rk, Some pk) \<Rightarrow> Some (np_sub (np_sub r p) (np_sub rk pk))
         | _ \<Rightarrow> None)) \<and>
     (\<forall>l. num_cell out l 0 =
        (case (num_cell full_table l 0, num_cell background_table l 0) of
           (Some rk, Some pk) \<Rightarrow> Some (if is_fin rk \<and> is_fin pk then Fin 0 else NaN)
         | _ \<Rightarrow> None)) \<and>
     separate_subtract_and_recombine_prd full_table background_table = Inr out_prd \<and>
     (\<forall>l i. num_cell out_prd l i =
        (case (num_cell full_table l i, num_cell background_table l i,
               num_cell full_table l 0, num_cell background_table l 0) of
           (Some r, Some p, Some r0, Some p0) \<Rightarrow> Some (np_sub (sub_fill0 r p) (sub_fill0 r0 p0))
         | _ \<Rightarrow> None)) \<and>
     (\<forall>l. num_cell out_prd l 0 =
        (case (num_cell full_table l 0, num_cell background_table l 0) of
           (Some r0, Some p0) \<Rightarrow> Some (if is_fin (sub_fill0 r0 p0) then Fin 0 else NaN)
         | _ \<Rightarrow> None)))"
proof -
  have h1: "wf_frame full_table"
    by (simp add: wf_frame_def full_table_def columns_def)
  have h2: "wf_frame background_table"
    by (simp add: wf_frame_def background_table_def columns_def)
  have h3: "columns (select_dtypes_include_number background_table) =
      columns (select_dtypes_include_number full_table)"
    by (simp add: columns_def select_dtypes_include_number_def background_table_def full_table_def)
  have h4: "nrows background_table = nrows full_table"
    by (simp add: background_table_def full_table_def)
  have h5: "py_index (nrows full_table) 0 = Inr 0"
    by (simp add: py_index_def full_table_def)
  from background_correction_cells [OF h1 h2 h3 h4 h5] h1 h2 h3 h4 h5
  show ?thesis by blast
qed

text \<open>
  C3, as the specification states it: for every sample table, background correction
  with the table itself as plate background gives a result whose numeric cells are all
  zero. It fails on a table with a missing reading (the cell stays NaN) and on a table
  with no rows, such as the empty table the newer loaders return on failure (the
  lookup of the blank row raises \<open>IndexError\<close>), in both scripts.
\<close>

theorem self_correction_counterexample:
  "separate_subtract_and_recombine gap_table gap_table 0 =
     Inr \<lparr>nrows = 2,
          cols = [(LStr ''Row/Col'', ObjCol [Some ''A1'', Some ''A2'']),
                  (LInt 220, NumCol [Fin 0, NaN])]\<rparr> \<and>
   separate_subtract_and_recombine_prd gap_table gap_table =
     Inr \<lparr>nrows = 2,
          cols = [(LStr ''Row/Col'', ObjCol [Some ''A1'', Some ''A2'']),
                  (LInt 220, NumCol [Fin 0, NaN])]\<rparr> \<and>
   separate_subtract_and_recombine empty_frame empty_frame 0 = Inl IndexError \<and>
   separate_subtract_and_recombine_prd empty_frame empty_frame = Inl IndexError"
  by (simp add: separate_subtract_and_recombine_def separate_subtract_and_recombine_prd_def
      separate_columns_def select_dtypes_include_number_def select_dtypes_exclude_number_def
      gap_table_def empty_frame_def frame_sub_def aligned_op_def columns_def col_or_missing_def
      pad_rows_def iloc_row_def py_index_def row_at_def bind_err_def subtract_series_axis1_def
      recombine_data_def reindex_columns_def concat_axis1_def np_sub_def
      subtract_background_def subtract_fill0_def sub_fill0_def fill0_def subtract_blank_row_def
      recombine_data_prd_def)

text \<open>
  C3, amended to what the code does. For a well-formed table and a blank index in range
  (row \<open>k\<close>; the table then has at least one row), background correction with the table
  itself as plate background returns a table whose numeric cell is zero wherever the
  raw cell and the raw cell of the blank row in the same column are both finite, and
  NaN elsewhere; so every numeric cell is zero when every numeric cell of the table is
  finite. The older function does the same with row \<open>0\<close> as the blank.
\<close>

theorem self_correction_cells:
  assumes wr: "wf_frame raw_df"
    and idx: "py_index (nrows raw_df) blank_index = Inr k"
  shows "\<exists>out out_prd.
     separate_subtract_and_recombine raw_df raw_df blank_index = Inr out \<and>
     (\<forall>l i. num_cell out l i =
        (case (num_cell raw_df l i, num_cell raw_df l k) of
           (Some v, Some w) \<Rightarrow> Some (if is_fin v \<and> is_fin w then Fin 0 else NaN)
         | _ \<Rightarrow> None)) \<and>
     separate_subtract_and_recombine_prd raw_df raw_df = Inr out_prd \<and>
     (\<forall>l i. num_cell out_prd l i =
        (case (num_cell raw_df l i, num_cell raw_df l 0) of
           (Some v, Some w) \<Rightarrow> Some (if is_fin v \<and> is_fin w then Fin 0 else NaN)
         | _ \<Rightarrow> None))"
proof -
  from corrected_cells_same_shape [OF wr wr refl refl idx]
  obtain out out_prd where
    out: "separate_subtract_and_recombine raw_df raw_df blank_index = Inr out"
    and cells: "\<And>l i. num_cell out l i =
        (case (num_cell raw_df l i, num_cell raw_df l i,
               num_cell raw_df l k, num_cell raw_df l k) of
           (Some r, Some p, Some rk, Some pk) \<Rightarrow> Some (np_sub (np_sub r p) (np_sub rk pk))
         | _ \<Rightarrow> None)"
    and prd: "separate_subtract_and_recombine_prd raw_df raw_df = Inr out_prd"
    and cells_prd: "\<And>l i. num_cell out_prd l i =
        (case (num_cell raw_df l i, num_cell raw_df l i,
               num_cell raw_df l 0, num_cell raw_df l 0) of
           (Some r, Some p, Some r0, Some p0) \<Rightarrow> Some (np_sub (sub_fill0 r p) (sub_fill0 r0 p0))
         | _ \<Rightarrow> None)"
    by blast
  have a: "num_cell out l i =
        (case (num_cell raw_df l i, num_cell raw_df l k) of
           (Some v, Some w) \<Rightarrow> Some (if is_fin v \<and> is_fin w then Fin 0 else NaN)
         | _ \<Rightarrow> None)" for l i
    by (simp add: cells [of l i] np_sub_self split: option.splits)
  have b: "num_cell out_prd l i =
        (case (num_cell raw_df l i, num_cell raw_df l 0) of
           (Some v, Some w) \<Rightarrow> Some (if is_fin v \<and> is_fin w then Fin 0 else NaN)
         | _ \<Rightarrow> None)" for l i
    by (simp add: cells_prd [of l i] np_sub_self sub_fill0_self split: option.splits)
  from out prd a b show ?thesis by blast
qed

theorem self_correction_cells_witness:
  "wf_frame full_table \<and> py_index (nrows full_table) 0 = Inr 0 \<and>
   (\<exists>out out_prd.
     separate_subtract_and_recombine full_table full_table 0 = Inr out \<and>
     (\<forall>l i. num_cell out l i =
        (case (num_cell full_table l i, num_cell full_table l 0) of
           (Some v, Some w) \<Rightarrow> Some (if is_fin v \<and> is_fin w then Fin 0 else NaN)
         | _ \<Rightarrow> None)) \<and>
     separate_subtract_and_recombine_prd full_table full_table = Inr out_prd \<and>
     (\<forall>l i. num_cell out_prd l i =
        (case (num_cell full_table l i, num_cell full_table l 0) of
           (Some v, Some w) \<Rightarrow> Some (if is_fin v \<and> is_fin w then Fin 0 else NaN)
         | _ \<Rightarrow> None)))"
proof -
  have h1: "wf_frame full_table"
    by (simp add: wf_frame_def full_table_def columns_def)
  have h2: "py_index (nrows full_table) 0 = Inr 0"
    by (simp add: py_index_def full_table_def)
  from self_correction_cells [OF h1 h2] h1 h2 show ?thesis by blast
qed

section \<open>Claims about the columns of the corrected table\<close>

text \<open>
  The newer script: the result has the columns of the raw table in the raw table's
  order whatever the plate table is, and on tables of the same shape every non-numeric
  column comes back as it was.
\<close>

lemma separate_subtract_and_recombine_columns:
  assumes "separate_subtract_and_recombine raw_df plate_data blank_index = Inr out"
  shows "columns out = columns raw_df"
  using assms
  by (auto simp: separate_subtract_and_recombine_def separate_columns_def bind_err_def
      recombine_data_def reindex_columns_def columns_def comp_def Let_def split: sum.splits)

lemma separate_subtract_and_recombine_identifiers:
  assumes "wf_frame raw_df" and "wf_frame plate_data"
    and "columns (select_dtypes_include_number plate_data) =
         columns (select_dtypes_include_number raw_df)"
    and "nrows plate_data = nrows raw_df"
    and "separate_subtract_and_recombine raw_df plate_data blank_index = Inr out"
  shows "obj_column out l = obj_column raw_df l"
proof -
  from assms(5) obtain k where idx: "py_index (nrows raw_df) blank_index = Inr k"
    using assms(4)
    by (auto simp: separate_subtract_and_recombine_def separate_columns_def bind_err_def
        iloc_row_def frame_sub_def aligned_op_def select_dtypes_include_number_def Let_def
        split: sum.splits)
  from separate_subtract_and_recombine_same_shape [OF assms(1-4) idx] assms(5)
  show ?thesis
    by (auto simp: obj_column_def map_of_mapped split: option.splits column.splits)
qed

text \<open>
  C5: background correction leaves every non-numeric column unchanged and returns the
  columns in the order of the input table. The older \<open>recombine_data\<close>, whose docstring
  promises the original order, has its \<open>reindex\<close> commented out and returns the
  non-numeric columns first. On a plate whose reading at 221 nm holds the instrument's
  overflow text, the input order \<open>Row/Col, 220, 221\<close> comes back as \<open>Row/Col, 221, 220\<close>
  from the older script and unchanged from the newer one.
\<close>

theorem recombine_data_prd_reorders_columns:
  "columns overflow_plate = [LStr ''Row/Col'', LInt 220, LInt 221] \<and>
   separate_subtract_and_recombine_prd overflow_plate overflow_plate =
     Inr \<lparr>nrows = 2,
          cols = [(LStr ''Row/Col'', ObjCol [Some ''A1'', Some ''A2'']),
                  (LInt 221, ObjCol [Some ''OVRFLW'', Some ''0.5'']),
                  (LInt 220, NumCol [Fin 0, Fin 0])]\<rparr> \<and>
   separate_subtract_and_recombine overflow_plate overflow_plate 0 =
     Inr \<lparr>nrows = 2,
          cols = [(LStr ''Row/Col'', ObjCol [Some ''A1'', Some ''A2'']),
                  (LInt 220, NumCol [Fin 0, Fin 0]),
                  (LInt 221, ObjCol [Some ''OVRFLW'', Some ''0.5''])]\<rparr>"
  by (simp add: separate_subtract_and_recombine_def separate_subtract_and_recombine_prd_def
      separate_columns_def select_dtypes_include_number_def select_dtypes_exclude_number_def
      overflow_plate_def frame_sub_def aligned_op_def columns_def col_or_missing_def
      pad_rows_def iloc_row_def py_index_def row_at_def bind_err_def subtract_series_axis1_def
      recombine_data_def reindex_columns_def concat_axis1_def
      subtract_background_def subtract_fill0_def sub_fill0_def fill0_def subtract_blank_row_def
      recombine_data_prd_def)

section \<open>Claims about batch processing\<close>

text \<open>
  The loop appends one value to each of the four lists per row, so the state after the
  loop holds the start lists followed by one quadruple (predicted styrene, actual
  styrene, predicted polystyrene, actual polystyrene) per row, each related to its row
  number by whatever the body guarantees.
\<close>

lemma process_rows_appends:
  assumes run: "process_rows body st rows = Inr st'"
    and step: "\<And>s i s'. body s i = Inr s' \<Longrightarrow>
      \<exists>q. P i q \<and>
        styrene_components_pred s' = styrene_components_pred s @ [fst q] \<and>
        styrene_components_actual s' = styrene_components_actual s @ [fst (snd q)] \<and>
        ps_components_pred s' = ps_components_pred s @ [fst (snd (snd q))] \<and>
        ps_components_actual s' = ps_components_actual s @ [snd (snd (snd q))]"
  shows "\<exists>qs. list_all2 P rows qs \<and>
      styrene_components_pred st' = styrene_components_pred st @ map fst qs \<and>
      styrene_components_actual st' = styrene_components_actual st @ map (fst \<circ> snd) qs \<and>
      ps_components_pred st' = ps_components_pred st @ map (fst \<circ> snd \<circ> snd) qs \<and>
      ps_components_actual st' = ps_components_actual st @ map (snd \<circ> snd \<circ> snd) qs"
  using run
proof (induction rows arbitrary: st)
  case Nil
  then show ?case by simp
next
  case (Cons i rows)
  from Cons.prems obtain s1 where b: "body st i = Inr s1"
    and r: "process_rows body s1 rows = Inr st'"
    by (auto split: sum.splits)
  from step [OF b] obtain q where q: "P i q"
    "styrene_components_pred s1 = styrene_components_pred st @ [fst q]"
    "styrene_components_actual s1 = styrene_components_actual st @ [fst (snd q)]"
    "ps_components_pred s1 = ps_components_pred st @ [fst (snd (snd q))]"
    "ps_components_actual s1 = ps_components_actual st @ [snd (snd (snd q))]"
    by blast
  from Cons.IH [OF r] obtain qs where qs: "list_all2 P rows qs"
    "styrene_components_pred st' = styrene_components_pred s1 @ map fst qs"
    "styrene_components_actual st' = styrene_components_actual s1 @ map (fst \<circ> snd) qs"
    "ps_components_pred st' = ps_components_pred s1 @ map (fst \<circ> snd \<circ> snd) qs"
    "ps_components_actual st' = ps_components_actual s1 @ map (snd \<circ> snd \<circ> snd) qs"
    by blast
  have "list_all2 P (i # rows) (q # qs)" using q(1) qs(1) by simp
  moreover have "styrene_components_pred st' = styrene_components_pred st @ map fst (q # qs)"
    using q(2) qs(2) by simp
  moreover have "styrene_components_actual st' =
      styrene_components_actual st @ map (fst \<circ> snd) (q # qs)"
    using q(3) qs(3) by simp
  moreover have "ps_components_pred st' =
      ps_components_pred st @ map (fst \<circ> snd \<circ> snd) (q # qs)"
    using q(4) qs(4) by simp
  moreover have "ps_components_actual st' =
      ps_components_actual st @ map (snd \<circ> snd \<circ> snd) (q # qs)"
    using q(5) qs(5) by simp
  ultimately show ?case by blast
qed

text \<open>What one pass of each loop body appends.\<close>

lemma process_row_appends:
  assumes "process_row data_df volumes_df styrene_spectrum polystyrene_spectrum range_start
             range_end deconvolution_method s i = Inr s'"
  shows "\<exists>q. (\<exists>v0 v1.
        iloc_cell volumes_df i 0 = Inr (Num v0) \<and> iloc_cell volumes_df i 1 = Inr (Num v1) \<and>
        deconvolution_method (unknown_spectrum data_df i range_start range_end)
          styrene_spectrum polystyrene_spectrum = Inr (Some (fst q, fst (snd (snd q)))) \<and>
        fst (snd q) = np_div (np_mul v0 (Fin 0.025)) (Fin 300) \<and>
        snd (snd (snd q)) = np_div (np_mul v1 (Fin 0.25)) (Fin 300)) \<and>
      styrene_components_pred s' = styrene_components_pred s @ [fst q] \<and>
      styrene_components_actual s' = styrene_components_actual s @ [fst (snd q)] \<and>
      ps_components_pred s' = ps_components_pred s @ [fst (snd (snd q))] \<and>
      ps_components_actual s' = ps_components_actual s @ [snd (snd (snd q))]"
  using assms
  by (auto simp: process_row_def fit_spectra_def bind_err_def to_concentration_def
      split: sum.splits option.splits prod.splits cell.splits)

lemma process_row_prd_appends:
  assumes "process_row_prd minimize data_df volumes_df styrene_spectrum polystyrene_spectrum
             range_start range_end s i = Inr s'"
  shows "\<exists>q. (\<exists>v0 v1.
        iloc_cell volumes_df i 0 = Inr (Num v0) \<and> iloc_cell volumes_df i 1 = Inr (Num v1) \<and>
        fit_spectra_prd minimize (unknown_spectrum data_df i range_start range_end)
          styrene_spectrum polystyrene_spectrum = Inr (fst q, fst (snd (snd q))) \<and>
        fst (snd q) = np_div (np_mul v0 (Fin 0.025)) (Fin 300) \<and>
        snd (snd (snd q)) = np_div (np_mul v1 (Fin 0.25)) (Fin 300)) \<and>
      styrene_components_pred s' = styrene_components_pred s @ [fst q] \<and>
      styrene_components_actual s' = styrene_components_actual s @ [fst (snd q)] \<and>
      ps_components_pred s' = ps_components_pred s @ [fst (snd (snd q))] \<and>
      ps_components_actual s' = ps_components_actual s @ [snd (snd (snd q))]"
  using assms
  by (auto simp: process_row_prd_def bind_err_def to_concentration_def
      split: sum.splits option.splits prod.splits cell.splits)

lemma process_samples_rows:
  assumes "process_samples data_df volumes_df styrene_spectrum polystyrene_spectrum range_start
             range_end deconvolution_method msgs = Inr st"
  shows "length (styrene_components_pred st) = nrows data_df \<and>
     length (styrene_components_actual st) = nrows data_df \<and>
     length (ps_components_pred st) = nrows data_df \<and>
     length (ps_components_actual st) = nrows data_df \<and>
     (\<forall>i<nrows data_df. \<exists>v0 v1.
        iloc_cell volumes_df i 0 = Inr (Num v0) \<and> iloc_cell volumes_df i 1 = Inr (Num v1) \<and>
        styrene_components_actual st ! i = np_div (np_mul v0 (Fin 0.025)) (Fin 300) \<and>
        ps_components_actual st ! i = np_div (np_mul v1 (Fin 0.25)) (Fin 300) \<and>
        deconvolution_method (unknown_spectrum data_df i range_start range_end)
          styrene_spectrum polystyrene_spectrum =
          Inr (Some (styrene_components_pred st ! i, ps_components_pred st ! i)))"
proof -
  let ?P = "\<lambda>i q. \<exists>v0 v1.
        iloc_cell volumes_df i 0 = Inr (Num v0) \<and> iloc_cell volumes_df i 1 = Inr (Num v1) \<and>
        deconvolution_method (unknown_spectrum data_df i range_start range_end)
          styrene_spectrum polystyrene_spectrum = Inr (Some (fst q, fst (snd (snd q)))) \<and>
        fst (snd q) = np_div (np_mul v0 (Fin 0.025)) (Fin 300) \<and>
        snd (snd (snd q)) = np_div (np_mul v1 (Fin 0.25)) (Fin 300)"
  from assms have run: "process_rows
       (process_row data_df volumes_df styrene_spectrum polystyrene_spectrum range_start
          range_end deconvolution_method)
       (initial_samples_state msgs) [0..<nrows data_df] = Inr st"
    by (simp add: process_samples_def)
  have step: "\<exists>q. ?P i q \<and>
        styrene_components_pred s' = styrene_components_pred s @ [fst q] \<and>
        styrene_components_actual s' = styrene_components_actual s @ [fst (snd q)] \<and>
        ps_components_pred s' = ps_components_pred s @ [fst (snd (snd q))] \<and>
        ps_components_actual s' = ps_components_actual s @ [snd (snd (snd q))]"
    if "process_row data_df volumes_df styrene_spectrum polystyrene_spectrum range_start
          range_end deconvolution_method s i = Inr s'" for s i s'
    using process_row_appends [OF that] .
  from process_rows_appends [where P = ?P, OF run step]
  obtain qs where all: "list_all2 ?P [0..<nrows data_df] qs"
    and l1: "styrene_components_pred st = map fst qs"
    and l2: "styrene_components_actual st = map (fst \<circ> snd) qs"
    and l3: "ps_components_pred st = map (fst \<circ> snd \<circ> snd) qs"
    and l4: "ps_components_actual st = map (snd \<circ> snd \<circ> snd) qs"
    by (auto simp: initial_samples_state_def)
  from all have len: "length qs = nrows data_df"
    by (simp add: list_all2_conv_all_nth)
  from all have each: "?P i (qs ! i)" if "i < nrows data_df" for i
    using that by (simp add: list_all2_conv_all_nth)
  show ?thesis
    using len each by (fastforce simp: l1 l2 l3 l4)
qed

lemma process_samples_prd_rows:
  assumes "process_samples_prd minimize data_df volumes_df styrene_spectrum polystyrene_spectrum
             range_start range_end msgs = Inr st"
  shows "length (styrene_components_pred st) = nrows data_df \<and>
     length (styrene_components_actual st) = nrows data_df \<and>
     length (ps_components_pred st) = nrows data_df \<and>
     length (ps_components_actual st) = nrows data_df \<and>
     (\<forall>i<nrows data_df. \<exists>v0 v1.
        iloc_cell volumes_df i 0 = Inr (Num v0) \<and> iloc_cell volumes_df i 1 = Inr (Num v1) \<and>
        styrene_components_actual st ! i = np_div (np_mul v0 (Fin 0.025)) (Fin 300) \<and>
        ps_components_actual st ! i = np_div (np_mul v1 (Fin 0.25)) (Fin 300) \<and>
        fit_spectra_prd minimize (unknown_spectrum data_df i range_start range_end)
          styrene_spectrum polystyrene_spectrum =
          Inr (styrene_components_pred st ! i, ps_components_pred st ! i))"
proof -
  let ?P = "\<lambda>i q. \<exists>v0 v1.
        iloc_cell volumes_df i 0 = Inr (Num v0) \<and> iloc_cell volumes_df i 1 = Inr (Num v1) \<and>
        fit_spectra_prd minimize (unknown_spectrum data_df i range_start range_end)
          styrene_spectrum polystyrene_spectrum = Inr (fst q, fst (snd (snd q))) \<and>
        fst (snd q) = np_div (np_mul v0 (Fin 0.025)) (Fin 300) \<and>
        snd (snd (snd q)) = np_div (np_mul v1 (Fin 0.25)) (Fin 300)"
  from assms have run: "process_rows
       (process_row_prd minimize data_df volumes_df styrene_spectrum polystyrene_spectrum
          range_start range_end)
       (initial_samples_state msgs) [0..<nrows data_df] = Inr st"
    by (simp add: process_samples_prd_def)
  have step: "\<exists>q. ?P i q \<and>
        styrene_components_pred s' = styrene_components_pred s @ [fst q] \<and>
        styrene_components_actual s' = styrene_components_actual s @ [fst (snd q)] \<and>
        ps_components_pred s' = ps_components_pred s @ [fst (snd (snd q))] \<and>
        ps_components_actual s' = ps_components_actual s @ [snd (snd (snd q))]"
    if "process_row_prd minimize data_df volumes_df styrene_spectrum polystyrene_spectrum
          range_start range_end s i = Inr s'" for s i s'
    using process_row_prd_appends [OF that] .
  from process_rows_appends [where P = ?P, OF run step]
  obtain qs where all: "list_all2 ?P [0..<nrows data_df] qs"
    and l1: "styrene_components_pred st = map fst qs"
    and l2: "styrene_components_actual st = map (fst \<circ> snd) qs"
    and l3: "ps_components_pred st = map (fst \<circ> snd \<circ> snd) qs"
    and l4: "ps_components_actual st = map (snd \<circ> snd \<circ> snd) qs"
    by (auto simp: initial_samples_state_def)
  from all have len: "length qs = nrows data_df"
    by (simp add: list_all2_conv_all_nth)
  from all have each: "?P i (qs ! i)" if "i < nrows data_df" for i
    using that by (simp add: list_all2_conv_all_nth)
  show ?thesis
    using len each by (fastforce simp: l1 l2 l3 l4)
qed

text \<open>
  C7, as the specification states it: for every row \<open>i\<close> of the metadata table, batch
  processing computes the actual concentrations of that row and pairs them with
  spectrum row \<open>i\<close>. The loop runs over the rows of the spectrum table, not of the
  metadata table. With two spectra and three metadata rows the lists come back with
  two entries, and the third metadata row is never read; with two spectra and one
  metadata row the lookup of the second row raises \<open>IndexError\<close> and no list is
  returned at all. Both scripts.
\<close>

theorem process_samples_row_count_counterexample:
  "nrows three_volumes = 3 \<and>
   process_samples two_samples three_volumes [Fin 1] [Fin 1] 0 None
     (least_squares_method stalled_minimize) [] =
   Inr \<lparr>styrene_components_pred = [Fin 0.5, Fin 0.5],
        styrene_components_actual = [Fin 0.0025, Fin 0.005],
        ps_components_pred = [Fin 0.5, Fin 0.5],
        ps_components_actual = [Fin 0.05, Fin 0.025],
        messages = []\<rparr> \<and>
   process_samples_prd stalled_minimize two_samples three_volumes [Fin 1] [Fin 1] 0 None [] =
   Inr \<lparr>styrene_components_pred = [Fin 0.5, Fin 0.5],
        styrene_components_actual = [Fin 0.0025, Fin 0.005],
        ps_components_pred = [Fin 0.5, Fin 0.5],
        ps_components_actual = [Fin 0.05, Fin 0.025],
        messages = [''Sample'', ''Sample'']\<rparr> \<and>
   nrows one_volume = 1 \<and>
   process_samples two_samples one_volume [Fin 1] [Fin 1] 0 None
     (least_squares_method stalled_minimize) [] = Inl IndexError \<and>
   process_samples_prd stalled_minimize two_samples one_volume [Fin 1] [Fin 1] 0 None [] =
     Inl IndexError"
  by (simp add: process_samples_def process_row_def fit_spectra_def least_squares_method_def
      process_samples_prd_def process_row_prd_def fit_spectra_prd_def
      least_squares_deconvolution_def stalled_minimize_def residuals_def combine_spectra_def
      np_elementwise_def np_scale_def ss_res_def np_sum_def np_square_def unknown_spectrum_def
      py_slice_def row_at_def select_dtypes_include_number_def iloc_cell_def
      to_concentration_def initial_samples_state_def initial_guess_def bind_err_def
      two_samples_def three_volumes_def one_volume_def Let_def
      upt_rec [of 0] upt_rec [of "Suc 0"])

text \<open>
  C7, amended to what the code does: whenever \<open>process_samples\<close> returns, each of the
  four lists has one entry per row of the spectrum table, and for every row \<open>i\<close> of the
  spectrum table the metadata table has a row \<open>i\<close> whose column 0 times \<open>0.025 / 300\<close>
  (styrene) and column 1 times \<open>0.25 / 300\<close> (polystyrene) are entry \<open>i\<close> of the two
  lists of actual concentrations, next to the coefficients fitted to spectrum row \<open>i\<close>.
  Both scripts.
\<close>

theorem process_samples_concentrations:
  "(process_samples data_df volumes_df styrene_spectrum polystyrene_spectrum range_start
      range_end deconvolution_method msgs = Inr st \<longrightarrow>
     length (styrene_components_pred st) = nrows data_df \<and>
     length (styrene_components_actual st) = nrows data_df \<and>
     length (ps_components_pred st) = nrows data_df \<and>
     length (ps_components_actual st) = nrows data_df \<and>
     (\<forall>i<nrows data_df. \<exists>v0 v1.
        iloc_cell volumes_df i 0 = Inr (Num v0) \<and> iloc_cell volumes_df i 1 = Inr (Num v1) \<and>
        styrene_components_actual st ! i = np_div (np_mul v0 (Fin 0.025)) (Fin 300) \<and>
        ps_components_actual st ! i = np_div (np_mul v1 (Fin 0.25)) (Fin 300) \<and>
        deconvolution_method (unknown_spectrum data_df i range_start range_end)
          styrene_spectrum polystyrene_spectrum =
          Inr (Some (styrene_components_pred st ! i, ps_components_pred st ! i)))) \<and>
   (process_samples_prd minimize data_df volumes_df styrene_spectrum polystyrene_spectrum
      range_start range_end msgs = Inr st_prd \<longrightarrow>
     length (styrene_components_pred st_prd) = nrows data_df \<and>
     length (styrene_components_actual st_prd) = nrows data_df \<and>
     length (ps_components_pred st_prd) = nrows data_df \<and>
     length (ps_components_actual st_prd) = nrows data_df \<and>
     (\<forall>i<nrows data_df. \<exists>v0 v1.
        iloc_cell volumes_df i 0 = Inr (Num v0) \<and> iloc_cell volumes_df i 1 = Inr (Num v1) \<and>
        styrene_components_actual st_prd ! i = np_div (np_mul v0 (Fin 0.025)) (Fin 300) \<and>
        ps_components_actual st_prd ! i = np_div (np_mul v1 (Fin 0.25)) (Fin 300) \<and>
        fit_spectra_prd minimize (unknown_spectrum data_df i range_start range_end)
          styrene_spectrum polystyrene_spectrum =
          Inr (styrene_components_pred st_prd ! i, ps_components_pred st_prd ! i)))"
  by (rule conjI; rule impI; (erule process_samples_rows | erule process_samples_prd_rows))

lemma two_samples_run:
  "process_samples two_samples two_volumes [Fin 1] [Fin 1] 0 None
     (least_squares_method stalled_minimize) [] =
   Inr \<lparr>styrene_components_pred = [Fin 0.5, Fin 0.5],
        styrene_components_actual = [Fin 0.0025, Fin 0.005],
        ps_components_pred = [Fin 0.5, Fin 0.5],
        ps_components_actual = [Fin 0.05, Fin 0.025],
        messages = []\<rparr>"
  by (simp add: process_samples_def process_row_def fit_spectra_def least_squares_method_def
      least_squares_deconvolution_def stalled_minimize_def residuals_def combine_spectra_def
      np_elementwise_def np_scale_def ss_res_def np_sum_def np_square_def unknown_spectrum_def
      py_slice_def row_at_def select_dtypes_include_number_def iloc_cell_def
      to_concentration_def initial_samples_state_def initial_guess_def bind_err_def
      two_samples_def two_volumes_def Let_def upt_rec [of 0] upt_rec [of "Suc 0"])

lemma two_samples_run_prd:
  "process_samples_prd stalled_minimize two_samples two_volumes [Fin 1] [Fin 1] 0 None [] =
   Inr \<lparr>styrene_components_pred = [Fin 0.5, Fin 0.5],
        styrene_components_actual = [Fin 0.0025, Fin 0.005],
        ps_components_pred = [Fin 0.5, Fin 0.5],
        ps_components_actual = [Fin 0.05, Fin 0.025],
        messages = [''Sample'', ''Sample'']\<rparr>"
  by (simp add: process_samples_prd_def process_row_prd_def fit_spectra_prd_def
      stalled_minimize_def residuals_def combine_spectra_def
      np_elementwise_def np_scale_def ss_res_def np_sum_def np_square_def unknown_spectrum_def
      py_slice_def row_at_def select_dtypes_include_number_def iloc_cell_def
      to_concentration_def initial_samples_state_def initial_guess_def bind_err_def
      two_samples_def two_volumes_def Let_def upt_rec [of 0] upt_rec [of "Suc 0"])

theorem process_samples_concentrations_witness:
  "process_samples two_samples two_volumes [Fin 1] [Fin 1] 0 None
     (least_squares_method stalled_minimize) [] =
   Inr \<lparr>styrene_components_pred = [Fin 0.5, Fin 0.5],
        styrene_components_actual = [Fin 0.0025, Fin 0.005],
        ps_components_pred = [Fin 0.5, Fin 0.5],
        ps_components_actual = [Fin 0.05, Fin 0.025],
        messages = []\<rparr> \<and>
   process_samples_prd stalled_minimize two_samples two_volumes [Fin 1] [Fin 1] 0 None [] =
   Inr \<lparr>styrene_components_pred = [Fin 0.5, Fin 0.5],
        styrene_components_actual = [Fin 0.0025, Fin 0.005],
        ps_components_pred = [Fin 0.5, Fin 0.5],
        ps_components_actual = [Fin 0.05, Fin 0.025],
        messages = [''Sample'', ''Sample'']\<rparr> \<and>
   (\<exists>v0 v1.
      iloc_cell two_volumes 1 0 = Inr (Num v0) \<and> iloc_cell two_volumes 1 1 = Inr (Num v1) \<and>
      [Fin 0.0025, Fin 0.005] ! 1 = np_div (np_mul v0 (Fin 0.025)) (Fin 300) \<and>
      [Fin 0.05, Fin 0.025] ! 1 = np_div (np_mul v1 (Fin 0.25)) (Fin 300) \<and>
      least_squares_method stalled_minimize (unknown_spectrum two_samples 1 0 None) [Fin 1] [Fin 1] =
        Inr (Some ([Fin 0.5, Fin 0.5] ! 1, [Fin 0.5, Fin 0.5] ! 1)) \<and>
      fit_spectra_prd stalled_minimize (unknown_spectrum two_samples 1 0 None) [Fin 1] [Fin 1] =
        Inr ([Fin 0.5, Fin 0.5] ! 1, [Fin 0.5, Fin 0.5] ! 1))"
proof -
  let ?st = "\<lparr>styrene_components_pred = [Fin 0.5, Fin 0.5],
        styrene_components_actual = [Fin 0.0025, Fin 0.005],
        ps_components_pred = [Fin 0.5, Fin 0.5],
        ps_components_actual = [Fin 0.05, Fin 0.025],
        messages = []\<rparr>"
  let ?st_prd = "\<lparr>styrene_components_pred = [Fin 0.5, Fin 0.5],
        styrene_components_actual = [Fin 0.0025, Fin 0.005],
        ps_components_pred = [Fin 0.5, Fin 0.5],
        ps_components_actual = [Fin 0.05, Fin 0.025],
        messages = [''Sample'', ''Sample'']\<rparr>"
  note claim = process_samples_concentrations
    [where data_df = two_samples and volumes_df = two_volumes
       and styrene_spectrum = "[Fin 1]" and polystyrene_spectrum = "[Fin 1]"
       and range_start = 0 and range_end = None
       and deconvolution_method = "least_squares_method stalled_minimize" and msgs = "[]"
       and st = ?st and minimize = stalled_minimize and st_prd = ?st_prd]
  have one: "1 < nrows two_samples" by (simp add: two_samples_def)
  from claim two_samples_run have
    "\<forall>i<nrows two_samples. \<exists>v0 v1.
        iloc_cell two_volumes i 0 = Inr (Num v0) \<and> iloc_cell two_volumes i 1 = Inr (Num v1) \<and>
        styrene_components_actual ?st ! i = np_div (np_mul v0 (Fin 0.025)) (Fin 300) \<and>
        ps_components_actual ?st ! i = np_div (np_mul v1 (Fin 0.25)) (Fin 300) \<and>
        least_squares_method stalled_minimize (unknown_spectrum two_samples i 0 None)
          [Fin 1] [Fin 1] =
          Inr (Some (styrene_components_pred ?st ! i, ps_components_pred ?st ! i))"
    by blast
  with one obtain v0 v1 where a:
    "iloc_cell two_volumes 1 0 = Inr (Num v0)" "iloc_cell two_volumes 1 1 = Inr (Num v1)"
    "styrene_components_actual ?st ! 1 = np_div (np_mul v0 (Fin 0.025)) (Fin 300)"
    "ps_components_actual ?st ! 1 = np_div (np_mul v1 (Fin 0.25)) (Fin 300)"
    "least_squares_method stalled_minimize (unknown_spectrum two_samples 1 0 None)
       [Fin 1] [Fin 1] =
       Inr (Some (styrene_components_pred ?st ! 1, ps_components_pred ?st ! 1))"
    by blast
  from claim two_samples_run_prd have
    "\<forall>i<nrows two_samples. \<exists>v0 v1.
        iloc_cell two_volumes i 0 = Inr (Num v0) \<and> iloc_cell two_volumes i 1 = Inr (Num v1) \<and>
        styrene_components_actual ?st_prd ! i = np_div (np_mul v0 (Fin 0.025)) (Fin 300) \<and>
        ps_components_actual ?st_prd ! i = np_div (np_mul v1 (Fin 0.25)) (Fin 300) \<and>
        fit_spectra_prd stalled_minimize (unknown_spectrum two_samples i 0 None)
          [Fin 1] [Fin 1] =
          Inr (styrene_components_pred ?st_prd ! i, ps_components_pred ?st_prd ! i)"
    by blast
  with one have b: "fit_spectra_prd stalled_minimize (unknown_spectrum two_samples 1 0 None)
       [Fin 1] [Fin 1] =
       Inr (styrene_components_pred ?st_prd ! 1, ps_components_pred ?st_prd ! 1)"
    by blast
  from a b two_samples_run two_samples_run_prd show ?thesis
    by (simp del: One_nat_def)
qed

section \<open>Claims about the entry point\<close>









section \<open>Claim about the sign of the coefficients\<close>

lemma np_le_zero_iff:
  "np_le (Fin 0) v \<longleftrightarrow> v = PInf \<or> (\<exists>x. v = Fin x \<and> 0 \<le> x)"
  by (cases v) simp_all

lemma within_nonneg_bounds:
  "within_bounds nonneg_bounds c \<longleftrightarrow> nonneg_coefficients c"
  by (cases c) (simp add: within_bounds_def nonneg_bounds_def within_bound_def
      nonneg_coefficients_def)

lemma two_point_minimize_honours_bounds: "honours_bounds two_point_minimize"
  unfolding honours_bounds_def
proof (intro allI impI)
  fix objective :: objective and x0 bnds result
  assume run: "two_point_minimize objective x0 bnds = Inr result"
  then show "within_bounds bnds (res_x result)"
    by (auto simp add: two_point_minimize_def bind_err_def Let_def
        split: list.splits prod.splits if_splits sum.splits)
qed

text \<open>
  C1: for every sample spectrum and every pair of reference spectra, whatever the signs
  of their values, the two coefficients that \<open>least_squares_deconvolution\<close> (newer
  script) and \<open>fit_spectra\<close> (older script) return are both \<open>>= 0\<close>. Both functions
  return the optimiser's \<open>result.x\<close> as it is, after passing it the bounds
  \<open>[(0, None), (0, None)]\<close>; the optimiser is the library's, and the statement holds
  for every optimiser that honours the bounds it is given, which is what the library
  documents. On spectra that cannot be broadcast together the objective raises and
  nothing is returned.
\<close>

theorem deconvolution_coefficients_nonneg:
  assumes "honours_bounds minimize"
    and "least_squares_deconvolution minimize sample_spectrum styrene_spectrum
           polystyrene_spectrum = Inr c \<or>
         fit_spectra_prd minimize sample_spectrum styrene_spectrum polystyrene_spectrum = Inr c"
  shows "nonneg_coefficients c"
proof -
  from assms(2) obtain result where
    run: "minimize (residuals sample_spectrum styrene_spectrum polystyrene_spectrum)
            initial_guess nonneg_bounds = Inr result"
    and c: "c = res_x result"
    by (auto simp add: least_squares_deconvolution_def fit_spectra_prd_def bind_err_def
        split: sum.splits)
  from assms(1) run have "within_bounds nonneg_bounds (res_x result)"
    unfolding honours_bounds_def by blast
  with c show ?thesis by (simp add: within_nonneg_bounds)
qed

theorem deconvolution_coefficients_nonneg_witness:
  "honours_bounds two_point_minimize \<and>
   least_squares_deconvolution two_point_minimize [Fin (- 2)] [Fin 1] [Fin 1] =
     Inr (Fin 0, Fin 0) \<and>
   nonneg_coefficients (Fin 0, Fin 0)"
proof -
  have run: "least_squares_deconvolution two_point_minimize [Fin (- 2)] [Fin 1] [Fin 1] =
      Inr (Fin 0, Fin 0)"
    by (simp add: least_squares_deconvolution_def two_point_minimize_def nonneg_bounds_def
        initial_guess_def within_bounds_def within_bound_def residuals_def
        combine_spectra_def np_elementwise_def np_scale_def ss_res_def np_sum_def
        np_square_def np_sub_def bind_err_def)
  from deconvolution_coefficients_nonneg
      [OF two_point_minimize_honours_bounds disjI1, OF run]
    two_point_minimize_honours_bounds run
  show ?thesis by simp
qed

section \<open>Where the corrections and the batch loop raise\<close>

text \<open>
  The statements about background correction above hold where a table is produced.
  These lemmas cover the other side, for every input: a blank index that is not a row of the table
  ends \<open>separate_subtract_and_recombine\<close> with the \<open>IndexError\<close> of the lookup, and so
  does a table without rows in both scripts.
\<close>

lemma nrows_select_dtypes_include_number [simp]:
  "nrows (select_dtypes_include_number df) = nrows df"
  by (simp add: select_dtypes_include_number_def)

lemma blank_index_out_of_range:
  assumes "nrows plate_data = nrows raw_df"
    and "py_index (nrows raw_df) blank_index = Inl e"
  shows "separate_subtract_and_recombine raw_df plate_data blank_index = Inl e"
  using assms
  by (simp add: separate_subtract_and_recombine_def separate_columns_def Let_def frame_sub_def
      aligned_op_def iloc_row_def bind_err_def)

lemma py_index_error: "py_index n i = Inl e \<Longrightarrow> e = IndexError"
  by (simp add: py_index_def split: if_splits)

lemma py_index_no_rows: "py_index 0 i = Inl IndexError"
  by (simp add: py_index_def)

lemma no_rows_raises:
  assumes "nrows raw_df = 0"
  shows "separate_subtract_and_recombine raw_df raw_df blank_index = Inl IndexError"
    and "separate_subtract_and_recombine_prd raw_df raw_df = Inl IndexError"
  using assms
  by (simp_all add: separate_subtract_and_recombine_def separate_subtract_and_recombine_prd_def
      separate_columns_def Let_def frame_sub_def subtract_background_def subtract_fill0_def
      aligned_op_def iloc_row_def bind_err_def py_index_def subtract_blank_row_def)

text \<open>
  The loop of \<open>process_samples\<close> returns only when its body has returned for every row
  number, and the body returns only after reading row \<open>i\<close> of the metadata table. So
  with fewer metadata rows than spectra no lists come back, in either script: the
  lookup raises \<open>IndexError\<close> at the first row that is missing, unless an earlier step
  has raised already (a fit that returned \<open>None\<close> gives \<open>TypeError\<close>).
\<close>

lemma process_rows_returns:
  assumes "process_rows body st xs = Inr st'" and "i \<in> set xs"
  shows "\<exists>s s'. body s i = Inr s'"
  using assms
proof (induction xs arbitrary: st)
  case Nil
  then show ?case by simp
next
  case (Cons x xs)
  then show ?case by (auto split: sum.splits)
qed

lemma process_row_reads_metadata:
  assumes "process_row data_df volumes_df styrene_spectrum polystyrene_spectrum range_start
             range_end deconvolution_method st i = Inr st'"
  shows "i < nrows volumes_df"
  using assms
  by (auto simp add: process_row_def bind_err_def iloc_cell_def
      split: prod.splits option.splits sum.splits if_splits)

lemma process_row_prd_reads_metadata:
  assumes "process_row_prd minimize data_df volumes_df styrene_spectrum polystyrene_spectrum
             range_start range_end st i = Inr st'"
  shows "i < nrows volumes_df"
  using assms
  by (auto simp add: process_row_prd_def bind_err_def iloc_cell_def
      split: prod.splits option.splits sum.splits if_splits)

lemma fewer_metadata_rows_no_result:
  assumes "nrows volumes_df < nrows data_df"
  shows "process_samples data_df volumes_df styrene_spectrum polystyrene_spectrum range_start
           range_end deconvolution_method msgs \<noteq> Inr st"
    and "process_samples_prd minimize data_df volumes_df styrene_spectrum polystyrene_spectrum
           range_start range_end msgs \<noteq> Inr st"
proof -
  from assms have mem: "nrows volumes_df \<in> set [0..<nrows data_df]" by simp
  show "process_samples data_df volumes_df styrene_spectrum polystyrene_spectrum range_start
           range_end deconvolution_method msgs \<noteq> Inr st"
  proof
    assume "process_samples data_df volumes_df styrene_spectrum polystyrene_spectrum range_start
           range_end deconvolution_method msgs = Inr st"
    from process_rows_returns [OF this [unfolded process_samples_def] mem]
    obtain s s' where "process_row data_df volumes_df styrene_spectrum polystyrene_spectrum
        range_start range_end deconvolution_method s (nrows volumes_df) = Inr s'" by blast
    from process_row_reads_metadata [OF this] show False by simp
  qed
  show "process_samples_prd minimize data_df volumes_df styrene_spectrum polystyrene_spectrum
           range_start range_end msgs \<noteq> Inr st"
  proof
    assume "process_samples_prd minimize data_df volumes_df styrene_spectrum polystyrene_spectrum
           range_start range_end msgs = Inr st"
    from process_rows_returns [OF this [unfolded process_samples_prd_def] mem]
    obtain s s' where "process_row_prd minimize data_df volumes_df styrene_spectrum
        polystyrene_spectrum range_start range_end s (nrows volumes_df) = Inr s'" by blast
    from process_row_prd_reads_metadata [OF this] show False by simp
  qed
qed

end
